theory Spec2Isabelle
  imports Main
begin

section \<open>Python strings\<close>

text \<open>
  A Python \<open>str\<close> is modelled as a \<open>string\<close> whose characters are the code points
  below 256. The methods of \<open>str\<close> the program calls are written out on that range:
  \<open>isspace\<close> is what \<open>str.strip()\<close> and \<open>str.split()\<close> take for whitespace,
  \<open>is_linebreak\<close> the boundaries of \<open>str.splitlines()\<close>, \<open>lower_char\<close> the lower-case
  mapping of \<open>str.lower()\<close>.
\<close>

definition isspace :: "char \<Rightarrow> bool" where
  "isspace c = (c \<in> set [CHR 0x09, CHR 0x0A, CHR 0x0B, CHR 0x0C, CHR 0x0D,
                          CHR 0x1C, CHR 0x1D, CHR 0x1E, CHR 0x1F, CHR '' '',
                          CHR 0x85, CHR 0xA0])"

definition is_linebreak :: "char \<Rightarrow> bool" where
  "is_linebreak c = (c \<in> set [CHR 0x0A, CHR 0x0B, CHR 0x0C, CHR 0x0D,
                               CHR 0x1C, CHR 0x1D, CHR 0x1E, CHR 0x85])"

definition strip :: "string \<Rightarrow> string" where
  "strip s = rev (dropWhile isspace (rev (dropWhile isspace s)))"

definition lower_char :: "char \<Rightarrow> char" where
  "lower_char c =
     (let n = (of_char c :: nat)
      in if (65 \<le> n \<and> n \<le> 90) \<or> (192 \<le> n \<and> n \<le> 222 \<and> n \<noteq> 215)
         then char_of (n + 32) else c)"

definition lower :: "string \<Rightarrow> string" where
  "lower s = map lower_char s"

definition startswith :: "string \<Rightarrow> string \<Rightarrow> bool" where
  "startswith s p = (take (length p) s = p)"

text \<open>\<open>contains sub s\<close> is Python's \<open>sub in s\<close>.\<close>

fun contains :: "string \<Rightarrow> string \<Rightarrow> bool" where
  "contains sub [] = (sub = [])"
| "contains sub (c # cs) = (startswith (c # cs) sub \<or> contains sub cs)"

text \<open>
  \<open>str.split()\<close> with no argument: the maximal runs of non-whitespace characters, in
  order. The first argument holds the characters of the current token, last one first.
\<close>

fun split_from :: "string \<Rightarrow> string \<Rightarrow> string list" where
  "split_from acc [] = (if acc = [] then [] else [rev acc])"
| "split_from acc (c # cs) =
     (if isspace c
      then (if acc = [] then split_from [] cs else rev acc # split_from [] cs)
      else split_from (c # acc) cs)"

definition split :: "string \<Rightarrow> string list" where
  "split s = split_from [] s"

text \<open>
  \<open>str.splitlines()\<close>: the text is cut at every line boundary, a carriage return followed
  by a line feed counts as one boundary, and a text that ends at a boundary has no empty
  last line.
\<close>

fun splitlines_from :: "string \<Rightarrow> string \<Rightarrow> string list" where
  "splitlines_from acc [] = (if acc = [] then [] else [rev acc])"
| "splitlines_from acc (c # cs) =
     (if c = CHR 0x0D
      then (case cs of
              [] \<Rightarrow> [rev acc]
            | d # ds \<Rightarrow> if d = CHR 0x0A then rev acc # splitlines_from [] ds
                        else rev acc # splitlines_from [] (d # ds))
      else if is_linebreak c then rev acc # splitlines_from [] cs
      else splitlines_from (c # acc) cs)"

definition splitlines :: "string \<Rightarrow> string list" where
  "splitlines s = splitlines_from [] s"

text \<open>\<open>join sep xs\<close> is \<open>sep.join(xs)\<close>.\<close>

fun join :: "string \<Rightarrow> string list \<Rightarrow> string" where
  "join sep [] = []"
| "join sep [x] = x"
| "join sep (x # y # ys) = x @ sep @ join sep (y # ys)"

text \<open>
  \<open>shlex.quote\<close>: the empty string becomes two quotes, a string of safe characters is
  returned as it is, any other string is put between single quotes with each single
  quote inside it written as \<open>'"'"'\<close>.
\<close>

definition shlex_safe :: "char \<Rightarrow> bool" where
  "shlex_safe c =
     (c \<in> set ''abcdefghijklmnopqrstuvwxyzABCDEFGHIJKLMNOPQRSTUVWXYZ0123456789_@%+=:,./-'')"

definition shlex_quote :: "string \<Rightarrow> string" where
  "shlex_quote s =
     (if s = [] then [CHR 0x27, CHR 0x27]
      else if list_all shlex_safe s then s
      else [CHR 0x27]
           @ concat (map (\<lambda>c. if c = CHR 0x27
                                then [CHR 0x27, CHR 0x22, CHR 0x27, CHR 0x22, CHR 0x27]
                                else [c]) s)
           @ [CHR 0x27])"

text \<open>
  The truth value of an optional string: \<open>None\<close> and the empty string are false.
\<close>

definition truthy :: "string option \<Rightarrow> bool" where
  "truthy x = (case x of None \<Rightarrow> False | Some s \<Rightarrow> s \<noteq> [])"


section \<open>The process boundary\<close>

text \<open>
  What \<open>subprocess.run\<close> hands back: a completed process with its exit status and the
  two captured streams, or an exception. Every exception carries the text \<open>str(e)\<close>
  gives for it; \<open>CalledProcessError\<close> also has the exit status and the captured
  diagnostic stream. The exceptions are the instances of Python's \<open>Exception\<close>, which
  is what the \<open>except Exception\<close> clauses of the program catch. An interrupt by the
  operator is modelled where the program handles it, at its input prompts
  (\<open>input_event\<close> below), and not while an external process runs.
\<close>

record completed =
  returncode :: int
  stdout :: string
  stderr :: string

datatype exn =
    CalledProcessError int string string
  | TimeoutExpired string
  | FileNotFoundError string
  | IndexError string
  | OtherException string

fun exn_str :: "exn \<Rightarrow> string" where
  "exn_str (CalledProcessError rc err msg) = msg"
| "exn_str (TimeoutExpired msg) = msg"
| "exn_str (FileNotFoundError msg) = msg"
| "exn_str (IndexError msg) = msg"
| "exn_str (OtherException msg) = msg"

text \<open>
  The program reaches the outside world through \<open>shutil.which\<close>, \<open>os.environ.get\<close>,
  \<open>subprocess.run\<close> and \<open>subprocess.Popen\<close>. The outside world is a state \<open>'w\<close>
  (the multiplexer server, the file system, the clock); the first two read it, the
  last two may change it. \<open>run\<close> takes the argument vector and the timeout in seconds.
  \<open>cpe_str\<close> is the text of a \<open>CalledProcessError\<close> for a command and an exit status,
  which the Python library composes.
\<close>

record 'w platform =
  which :: "string \<Rightarrow> 'w \<Rightarrow> string option"
  environ_get :: "string \<Rightarrow> 'w \<Rightarrow> string option"
  run :: "string list \<Rightarrow> nat \<Rightarrow> 'w \<Rightarrow> (exn + completed) \<times> 'w"
  popen :: "string list \<Rightarrow> 'w \<Rightarrow> exn option \<times> 'w"
  cpe_str :: "string list \<Rightarrow> int \<Rightarrow> string"

text \<open>
  \<open>subprocess.run(args, check=..., timeout=...)\<close>: with \<open>check\<close> set, a completed
  process with a non-zero exit status is raised as \<open>CalledProcessError\<close>.
\<close>

definition subprocess_run ::
  "'w platform \<Rightarrow> string list \<Rightarrow> bool \<Rightarrow> nat \<Rightarrow> 'w \<Rightarrow> (exn + completed) \<times> 'w" where
  "subprocess_run P args check timeout w =
     (case run P args timeout w of
        (Inl e, w') \<Rightarrow> (Inl e, w')
      | (Inr cp, w') \<Rightarrow>
          if check \<and> returncode cp \<noteq> 0
          then (Inl (CalledProcessError (returncode cp) (stderr cp)
                       (cpe_str P args (returncode cp))), w')
          else (Inr cp, w'))"


section \<open>Session addressing and tool lookup\<close>

definition MICRO_TERM_PREFIX :: string where
  "MICRO_TERM_PREFIX = ''aitx-micro-''"

definition VM_TYPES :: "string list" where
  "VM_TYPES = [''local'', ''docker'', ''ssh'']"

definition get_tmux_path :: "'w platform \<Rightarrow> 'w \<Rightarrow> string option" where
  "get_tmux_path P w = which P ''tmux'' w"

definition get_docker_path :: "'w platform \<Rightarrow> 'w \<Rightarrow> string option" where
  "get_docker_path P w = which P ''docker'' w"

definition get_ssh_path :: "'w platform \<Rightarrow> 'w \<Rightarrow> string option" where
  "get_ssh_path P w = which P ''ssh'' w"

text \<open>
  The session identifier of a name, \<open>f"{MICRO_TERM_PREFIX}{name}"\<close>, and the way back
  that \<open>list_micro_terminals\<close> applies to each line: a line that starts with the prefix
  gives the rest of the line, any other line gives nothing.
\<close>

definition to_identifier :: "string \<Rightarrow> string" where
  "to_identifier name = MICRO_TERM_PREFIX @ name"

definition strip_namespace :: "string \<Rightarrow> string option" where
  "strip_namespace s =
     (if startswith s MICRO_TERM_PREFIX then Some (drop (length MICRO_TERM_PREFIX) s)
      else None)"


section \<open>The lifecycle operations\<close>

definition session_exists :: "'w platform \<Rightarrow> string \<Rightarrow> string \<Rightarrow> 'w \<Rightarrow> bool \<times> 'w" where
  "session_exists P tmux_path session_name w =
     (case subprocess_run P [tmux_path, ''has-session'', ''-t'', session_name] False 3 w of
        (Inr result, w') \<Rightarrow> (returncode result = 0, w')
      | (Inl e, w') \<Rightarrow> (False, w'))"

definition list_micro_terminals :: "'w platform \<Rightarrow> 'w \<Rightarrow> string list \<times> 'w" where
  "list_micro_terminals P w =
     (let tmux = get_tmux_path P w in
      if \<not> truthy tmux then ([], w)
      else
        (case subprocess_run P [the tmux, ''list-sessions'', ''-F'', ''#{session_name}'']
                False 5 w of
           (Inl e, w') \<Rightarrow> ([], w')
         | (Inr result, w') \<Rightarrow>
             if returncode result \<noteq> 0 then ([], w')
             else (map (drop (length MICRO_TERM_PREFIX))
                     (filter (\<lambda>s. startswith s MICRO_TERM_PREFIX)
                        (splitlines (strip (stdout result)))), w')))"

text \<open>
  The start command of a new session (the \<open>if vm_type == "docker" ... elif ... else\<close>
  block of \<open>create_micro_terminal\<close>): \<open>Inl\<close> is the message of an early return.
\<close>

definition start_cmd_of ::
  "'w platform \<Rightarrow> string \<Rightarrow> string option \<Rightarrow> 'w \<Rightarrow> string + string" where
  "start_cmd_of P vm_type vm_target w =
     (if vm_type = ''docker'' then
        (if \<not> truthy vm_target
         then Inl ''docker vm_type requires a container name/ID (vm_target).''
         else let docker = get_docker_path P w in
           if \<not> truthy docker then Inl ''Docker is not installed or not found in PATH.''
           else Inr (the docker @ '' exec -it '' @ the vm_target @ '' ''
                     @ ''/bin/sh -c 'command -v bash >/dev/null 2>&1 && exec bash || exec sh''
                     @ [CHR 0x27]))
      else if vm_type = ''ssh'' then
        (if \<not> truthy vm_target
         then Inl ''ssh vm_type requires a user@host target (vm_target).''
         else let ssh = get_ssh_path P w in
           if \<not> truthy ssh then Inl ''SSH client is not installed or not found in PATH.''
           else Inr (the ssh @ '' '' @ the vm_target))
      else
        Inr (case environ_get P ''SHELL'' w of None \<Rightarrow> ''/bin/bash'' | Some sh \<Rightarrow> sh))"

text \<open>
  The diagnostic text of a \<open>CalledProcessError\<close>,
  \<open>e.stderr.strip() if e.stderr else str(e)\<close>.
\<close>

definition diagnostic :: "string \<Rightarrow> string \<Rightarrow> string" where
  "diagnostic err msg = (if err \<noteq> [] then strip err else msg)"

definition create_micro_terminal ::
  "'w platform \<Rightarrow> string \<Rightarrow> string \<Rightarrow> string option \<Rightarrow> 'w
     \<Rightarrow> (bool \<times> string option \<times> string) \<times> 'w" where
  "create_micro_terminal P name vm_type vm_target w =
     (let tmux = get_tmux_path P w in
      if \<not> truthy tmux
      then ((False, None, ''tmux is not installed or not found in PATH.''), w)
      else if vm_type \<notin> set VM_TYPES
      then ((False, None, ''Unknown vm_type '' @ [CHR 0x27] @ vm_type @ [CHR 0x27]
                          @ ''. Choose from: '' @ join '', '' VM_TYPES @ ''.''), w)
      else
        let session_name = MICRO_TERM_PREFIX @ name in
        (case session_exists P (the tmux) session_name w of
           (True, w1) \<Rightarrow>
             ((False, Some session_name,
               ''Micro terminal '' @ [CHR 0x27] @ name @ [CHR 0x27] @ '' already exists.''), w1)
         | (False, w1) \<Rightarrow>
             (case start_cmd_of P vm_type vm_target w1 of
                Inl msg \<Rightarrow> ((False, None, msg), w1)
              | Inr start_cmd \<Rightarrow>
                  (case subprocess_run P
                          [the tmux, ''new-session'', ''-d'', ''-s'', session_name, start_cmd]
                          True 10 w1 of
                     (Inr result, w2) \<Rightarrow>
                       ((True, Some session_name,
                         ''Micro terminal '' @ [CHR 0x27] @ name @ [CHR 0x27]
                         @ '' created successfully.''), w2)
                   | (Inl (CalledProcessError rc err msg), w2) \<Rightarrow>
                       ((False, None,
                         ''Failed to create micro terminal: '' @ diagnostic err msg), w2)
                   | (Inl e, w2) \<Rightarrow>
                       ((False, None,
                         ''Unexpected error creating micro terminal: '' @ exn_str e), w2)))))"

text \<open>
  The test both \<open>destroy_micro_terminal\<close> and \<open>send_to_micro_terminal\<close> make on the
  diagnostic text.
\<close>

definition says_not_found :: "string \<Rightarrow> bool" where
  "says_not_found err =
     (contains ''session not found'' (lower err) \<or> contains ''no server running'' (lower err))"

definition destroy_micro_terminal ::
  "'w platform \<Rightarrow> string \<Rightarrow> 'w \<Rightarrow> (bool \<times> string) \<times> 'w" where
  "destroy_micro_terminal P name w =
     (let tmux = get_tmux_path P w in
      if \<not> truthy tmux
      then ((False, ''tmux is not installed or not found in PATH.''), w)
      else
        let session_name = MICRO_TERM_PREFIX @ name in
        (case subprocess_run P [the tmux, ''kill-session'', ''-t'', session_name] True 5 w of
           (Inr result, w') \<Rightarrow>
             ((True, ''Micro terminal '' @ [CHR 0x27] @ name @ [CHR 0x27] @ '' destroyed.''), w')
         | (Inl (CalledProcessError rc stderr_text msg), w') \<Rightarrow>
             (let err = diagnostic stderr_text msg in
              if says_not_found err
              then ((False, ''Micro terminal '' @ [CHR 0x27] @ name @ [CHR 0x27]
                            @ '' not found.''), w')
              else ((False, ''Failed to destroy micro terminal: '' @ err), w'))
         | (Inl e, w') \<Rightarrow>
             ((False, ''Unexpected error destroying micro terminal: '' @ exn_str e), w')))"

definition send_to_micro_terminal ::
  "'w platform \<Rightarrow> string \<Rightarrow> string \<Rightarrow> 'w \<Rightarrow> (bool \<times> string) \<times> 'w" where
  "send_to_micro_terminal P name command w =
     (let tmux = get_tmux_path P w in
      if \<not> truthy tmux
      then ((False, ''tmux is not installed or not found in PATH.''), w)
      else
        let session_name = MICRO_TERM_PREFIX @ name in
        (case subprocess_run P
                [the tmux, ''send-keys'', ''-t'', session_name @ '':0.0'', command, ''C-m'']
                True 5 w of
           (Inr result, w') \<Rightarrow>
             ((True, ''Command sent to micro terminal '' @ [CHR 0x27] @ name @ [CHR 0x27]
                     @ ''.''), w')
         | (Inl (CalledProcessError rc stderr_text msg), w') \<Rightarrow>
             (let err = diagnostic stderr_text msg in
              if says_not_found err
              then ((False, ''Micro terminal '' @ [CHR 0x27] @ name @ [CHR 0x27]
                            @ '' not found or has been closed.''), w')
              else ((False, ''Failed to send command: '' @ err), w'))
         | (Inl e, w') \<Rightarrow>
             ((False, ''Unexpected error sending command: '' @ exn_str e), w')))"

definition attach_micro_terminal ::
  "'w platform \<Rightarrow> string \<Rightarrow> string option \<Rightarrow> 'w \<Rightarrow> (bool \<times> string) \<times> 'w" where
  "attach_micro_terminal P name visual_terminal_path w =
     (let tmux = get_tmux_path P w in
      if \<not> truthy tmux
      then ((False, ''tmux is not installed or not found in PATH.''), w)
      else if \<not> truthy visual_terminal_path
      then ((False, ''No visual terminal application path provided.''), w)
      else
        let session_name = MICRO_TERM_PREFIX @ name in
        (case session_exists P (the tmux) session_name w of
           (False, w1) \<Rightarrow>
             ((False, ''Micro terminal '' @ [CHR 0x27] @ name @ [CHR 0x27] @ '' not found.''), w1)
         | (True, w1) \<Rightarrow>
             (let tmux_cmd = shlex_quote (the tmux) @ '' attach-session -t ''
                             @ shlex_quote session_name;
                  term_args = [the visual_terminal_path,
                               ''-T'', ''Micro Terminal: '' @ name,
                               ''-e'', ''bash -c '' @ [CHR 0x22] @ tmux_cmd @ [CHR 0x22]]
              in case popen P term_args w1 of
                   (None, w2) \<Rightarrow>
                     ((True, ''Opened micro terminal '' @ [CHR 0x27] @ name @ [CHR 0x27]
                             @ '' in a new window.''), w2)
                 | (Some (FileNotFoundError msg), w2) \<Rightarrow>
                     ((False, ''Visual terminal '' @ [CHR 0x27] @ the visual_terminal_path
                              @ [CHR 0x27] @ '' not found.''), w2)
                 | (Some e, w2) \<Rightarrow>
                     ((False, ''Failed to open micro terminal window: '' @ exn_str e), w2))))"


section \<open>The interactive dispatcher\<close>

text \<open>
  What a call of \<open>input()\<close> gives: a line of text, or one of the two exceptions the
  program handles at its prompts. The operator's input is a list of such events; reading
  past its end is end-of-input.
\<close>

datatype input_event = Line string | KeyboardInterrupt | EOFError

fun read_input :: "input_event list \<Rightarrow> input_event \<times> input_event list" where
  "read_input [] = (EOFError, [])"
| "read_input (e # es) = (e, es)"

text \<open>
  One pass through the body of the \<open>while True\<close> loop of \<open>run_micro_terminal_manager\<close>:
  it leaves the function with a result (\<open>Return\<close>), goes round again with the input
  that is left (\<open>Continue\<close>), or fails on \<open>parts[0]\<close> of an empty token list (\<open>Raised\<close>).
  What the loop prints is presentation and is left out; the list of active terminals
  is still queried at the top of every pass, as in the source.
\<close>

datatype 'w step = Return string 'w | Continue "input_event list" 'w | Raised exn 'w

definition manager_iteration ::
  "'w platform \<Rightarrow> string option \<Rightarrow> input_event list \<Rightarrow> 'w \<Rightarrow> 'w step" where
  "manager_iteration P visual_terminal_path ins w =
     (case list_micro_terminals P w of (active, w0) \<Rightarrow>
      (case read_input ins of
         (KeyboardInterrupt, rest) \<Rightarrow> Return ''quit'' w0
       | (EOFError, rest) \<Rightarrow> Return ''quit'' w0
       | (Line text, rest) \<Rightarrow>
          (let user_input = strip text in
           if user_input = [] then Continue rest w0
           else
             (case split user_input of
                [] \<Rightarrow> Raised (IndexError ''list index out of range'') w0
              | p0 # ps \<Rightarrow>
                 (let parts = p0 # ps; cmd = lower p0 in
                  if cmd = ''quit'' \<or> cmd = ''exit'' then Return ''quit'' w0
                  else if cmd = ''back'' then Return ''back'' w0
                  else if cmd = ''list'' then Continue rest w0
                  else if cmd = ''new'' then
                    (if length parts < 2 then Continue rest w0
                     else if length parts = 3 then Continue rest w0
                     else
                       (let term_name = parts ! 1;
                            vm_type = (if length parts \<ge> 4 then lower (parts ! 2) else ''local'');
                            vm_target = (if length parts \<ge> 4 then Some (parts ! 3) else None)
                        in case create_micro_terminal P term_name vm_type vm_target w0 of
                             ((success, session, msg), w1) \<Rightarrow>
                               if success then
                                 (case read_input rest of
                                    (Line answer, rest') \<Rightarrow>
                                      (let open_choice = lower (strip answer) in
                                       if open_choice = ''y'' \<or> open_choice = ''yes''
                                       then (case attach_micro_terminal P term_name
                                                    visual_terminal_path w1 of
                                               ((ok, open_msg), w2) \<Rightarrow> Continue rest' w2)
                                       else Continue rest' w1)
                                  | (KeyboardInterrupt, rest') \<Rightarrow> Continue rest' w1
                                  | (EOFError, rest') \<Rightarrow> Continue rest' w1)
                               else Continue rest w1))
                  else if cmd = ''open'' then
                    (if length parts < 2 then Continue rest w0
                     else (case attach_micro_terminal P (parts ! 1) visual_terminal_path w0 of
                             ((ok, msg), w1) \<Rightarrow> Continue rest w1))
                  else if cmd = ''send'' then
                    (if length parts < 3 then Continue rest w0
                     else
                       (let term_name = parts ! 1;
                            command = join '' '' (drop 2 parts)
                        in case send_to_micro_terminal P term_name command w0 of
                             ((ok, msg), w1) \<Rightarrow> Continue rest w1))
                  else if cmd = ''destroy'' then
                    (if length parts < 2 then Continue rest w0
                     else
                       (let term_name = parts ! 1
                        in case read_input rest of
                             (Line answer, rest') \<Rightarrow>
                               (let confirm = lower (strip answer) in
                                if confirm = ''y'' \<or> confirm = ''yes''
                                then (case destroy_micro_terminal P term_name w0 of
                                        ((ok, msg), w1) \<Rightarrow> Continue rest' w1)
                                else Continue rest' w0)
                           | (KeyboardInterrupt, rest') \<Rightarrow> Continue rest' w0
                           | (EOFError, rest') \<Rightarrow> Continue rest' w0))
                  else Continue rest w0)))))"


text \<open>
  The loop itself: it ends when a pass returns or raises, and otherwise goes on with
  the input that is left.
\<close>

function run_micro_terminal_manager ::
  "'w platform \<Rightarrow> string option \<Rightarrow> input_event list \<Rightarrow> 'w \<Rightarrow> (exn + string) \<times> 'w" where
  "run_micro_terminal_manager P visual_terminal_path ins w =
     (case manager_iteration P visual_terminal_path ins w of
        Return r w' \<Rightarrow> (Inr r, w')
      | Raised e w' \<Rightarrow> (Inl e, w')
      | Continue rest w' \<Rightarrow> run_micro_terminal_manager P visual_terminal_path rest w')"
  by pat_completeness auto
termination
proof (relation "measure (\<lambda>(P, vtp, ins, w). length ins)")
  show "wf (measure (\<lambda>(P :: 'w platform, vtp :: string option, ins :: input_event list,
                        w :: 'w). length ins))"
    by simp
next
  fix P :: "'w platform" and vtp ins w rest w'
  assume step: "manager_iteration P vtp ins w = Continue rest w'"
  have "length rest < length ins"
  proof (cases ins)
    case Nil
    with step show ?thesis
      by (simp add: manager_iteration_def split: prod.splits)
  next
    case (Cons ev evs)
    have shorter: "length (snd (read_input evs)) \<le> length evs"
      by (cases evs) simp_all
    from step Cons have "rest = evs \<or> rest = snd (read_input evs)"
      by (auto simp: manager_iteration_def Let_def
               split: prod.splits input_event.splits list.splits if_splits)
    with shorter Cons show ?thesis by auto
  qed
  then show "((P, vtp, rest, w'), (P, vtp, ins, w))
               \<in> measure (\<lambda>(P, vtp, ins, w). length ins)"
    by simp
qed

declare run_micro_terminal_manager.simps [simp del]


section \<open>A reference multiplexer\<close>

text \<open>
  An instance of the process boundary on which the operations can be evaluated: a
  server that holds a list of session names, answers the five subcommands the program
  uses, and records every argument vector it is started with. When \<open>fault\<close> is set,
  every invocation raises it instead. A program is found when it is among the
  \<open>installed\<close> ones. With no session the server is not running, as
  with the real tool.
\<close>

record server =
  sessions :: "string list"
  installed :: "string list"
  fault :: "exn option"
  invocations :: "string list list"

definition exited :: "int \<Rightarrow> string \<Rightarrow> string \<Rightarrow> completed" where
  "exited rc out err = \<lparr>returncode = rc, stdout = out, stderr = err\<rparr>"

definition server_answer :: "string list \<Rightarrow> server \<Rightarrow> completed \<times> server" where
  "server_answer args w =
     (case args of
        [t, sub, a, s] \<Rightarrow>
          if sub = ''list-sessions'' then
            (if sessions w = []
             then (exited 1 [] (''no server running on /tmp/tmux-0/default'' @ [CHR 0x0A]), w)
             else (exited 0 (concat (map (\<lambda>n. n @ [CHR 0x0A]) (sessions w))) [], w))
          else if sub = ''has-session'' then
            (if s \<in> set (sessions w) then (exited 0 [] [], w)
             else (exited 1 [] (''can't find session: '' @ s @ [CHR 0x0A]), w))
          else if sub = ''kill-session'' then
            (if sessions w = []
             then (exited 1 [] (''no server running on /tmp/tmux-0/default'' @ [CHR 0x0A]), w)
             else if s \<in> set (sessions w)
             then (exited 0 [] [], w\<lparr>sessions := removeAll s (sessions w)\<rparr>)
             else (exited 1 [] (''can't find session: '' @ s @ [CHR 0x0A]), w))
          else (exited 1 [] (''unknown command: '' @ sub @ [CHR 0x0A]), w)
      | [t, sub, a, s, c, k] \<Rightarrow>
          if sub = ''new-session'' then
            (if c \<in> set (sessions w)
             then (exited 1 [] (''duplicate session: '' @ c @ [CHR 0x0A]), w)
             else (exited 0 [] [], w\<lparr>sessions := sessions w @ [c]\<rparr>))
          else if sub = ''send-keys'' then
            (if sessions w = []
             then (exited 1 [] (''no server running on /tmp/tmux-0/default'' @ [CHR 0x0A]), w)
             else if take (length s - 4) s \<in> set (sessions w) then (exited 0 [] [], w)
             else (exited 1 [] (''can't find pane: '' @ s @ [CHR 0x0A]), w))
          else (exited 1 [] (''unknown command: '' @ sub @ [CHR 0x0A]), w)
      | _ \<Rightarrow> (exited 1 [] (''usage error'' @ [CHR 0x0A]), w))"

definition server_run :: "string list \<Rightarrow> nat \<Rightarrow> server \<Rightarrow> (exn + completed) \<times> server" where
  "server_run args timeout w =
     (let w' = w\<lparr>invocations := invocations w @ [args]\<rparr>
      in case fault w of
           Some e \<Rightarrow> (Inl e, w')
         | None \<Rightarrow> (case server_answer args w' of (cp, w'') \<Rightarrow> (Inr cp, w'')))"

definition server_popen :: "string list \<Rightarrow> server \<Rightarrow> exn option \<times> server" where
  "server_popen args w =
     (let w' = w\<lparr>invocations := invocations w @ [args]\<rparr>
      in case fault w of
           Some e \<Rightarrow> (Some e, w')
         | None \<Rightarrow>
             (case args of
                [] \<Rightarrow> (Some (IndexError ''list index out of range''), w')
              | a # rest \<Rightarrow>
                  if a \<in> set (map (\<lambda>n. ''/usr/bin/'' @ n) (installed w)) then (None, w')
                  else (Some (FileNotFoundError (''No such file or directory: '' @ a)), w')))"

definition reference_platform :: "server platform" where
  "reference_platform =
     \<lparr>which = (\<lambda>n w. if n \<in> set (installed w) then Some (''/usr/bin/'' @ n) else None),
      environ_get = (\<lambda>n w. None),
      run = server_run,
      popen = server_popen,
      cpe_str = (\<lambda>args rc. ''Command returned non-zero exit status.'')\<rparr>"

definition server0 :: "string list \<Rightarrow> server" where
  "server0 names =
     \<lparr>sessions = names, installed = [''tmux''], fault = None, invocations = []\<rparr>"

text \<open>
  The same platform with a liveness query that always times out, while every other
  invocation is answered by the server.
\<close>

definition deaf_platform :: "server platform" where
  "deaf_platform =
     reference_platform
       \<lparr>run := (\<lambda>args timeout w.
                  case args of
                    t # sub # rest \<Rightarrow>
                      if sub = ''has-session''
                      then (Inl (TimeoutExpired ''timed out after 3 seconds''),
                            w\<lparr>invocations := invocations w @ [args]\<rparr>)
                      else server_run args timeout w
                  | _ \<Rightarrow> server_run args timeout w)\<rparr>"



section \<open>Facts about the string functions\<close>

lemma startswith_append: "startswith (p @ s) p"
  by (simp add: startswith_def)

lemma startswith_iff: "startswith s p \<longleftrightarrow> (\<exists>post. s = p @ post)"
  unfolding startswith_def by (metis append_eq_conv_conj)

text \<open>\<open>contains\<close> is the substring relation.\<close>

lemma contains_iff: "contains sub s \<longleftrightarrow> (\<exists>pre post. s = pre @ sub @ post)"
proof (induction s)
  case Nil
  show ?case by auto
next
  case (Cons c cs)
  have here_or_later:
    "(\<exists>pre post. c # cs = pre @ sub @ post)
       \<longleftrightarrow> (\<exists>post. c # cs = sub @ post) \<or> (\<exists>pre post. cs = pre @ sub @ post)"
  proof
    assume "\<exists>pre post. c # cs = pre @ sub @ post"
    then obtain pre post where e: "c # cs = pre @ sub @ post" by blast
    show "(\<exists>post. c # cs = sub @ post) \<or> (\<exists>pre post. cs = pre @ sub @ post)"
    proof (cases pre)
      case Nil
      with e show ?thesis by auto
    next
      case (Cons p ps)
      with e have "cs = ps @ sub @ post" by simp
      then show ?thesis by blast
    qed
  next
    assume "(\<exists>post. c # cs = sub @ post) \<or> (\<exists>pre post. cs = pre @ sub @ post)"
    then show "\<exists>pre post. c # cs = pre @ sub @ post"
    proof
      assume "\<exists>post. c # cs = sub @ post"
      then obtain post where "c # cs = [] @ sub @ post" by auto
      then show ?thesis by blast
    next
      assume "\<exists>pre post. cs = pre @ sub @ post"
      then obtain pre post where "cs = pre @ sub @ post" by blast
      then have "c # cs = (c # pre) @ sub @ post" by simp
      then show ?thesis by blast
    qed
  qed
  show ?case using Cons.IH here_or_later by (simp add: startswith_iff)
qed


section \<open>Session addressing\<close>

lemma to_identifier_inj: "inj to_identifier"
  by (simp add: inj_on_def to_identifier_def)

text \<open>
  Claim C2. Stripping the namespace from the identifier of a name gives the name back,
  for every name, and \<open>to_identifier\<close> is injective on the names that do not contain
  the namespace tag. (It is injective on all names, \<open>to_identifier_inj\<close>.)
\<close>

theorem addressing_roundtrip:
  "strip_namespace (to_identifier n) = Some n
   \<and> inj_on to_identifier {m. \<not> contains MICRO_TERM_PREFIX m}"
  by (simp add: strip_namespace_def to_identifier_def startswith_def inj_on_def)

theorem addressing_roundtrip_witness:
  "strip_namespace (to_identifier ''web'') = Some ''web''
   \<and> \<not> contains MICRO_TERM_PREFIX ''web'' \<and> \<not> contains MICRO_TERM_PREFIX ''db''
   \<and> to_identifier ''web'' \<noteq> to_identifier ''db''
   \<and> to_identifier ''web'' = ''aitx-micro-web''"
proof -
  have free: "\<not> contains MICRO_TERM_PREFIX ''web''" "\<not> contains MICRO_TERM_PREFIX ''db''"
    by (simp_all add: MICRO_TERM_PREFIX_def startswith_def)
  from addressing_roundtrip [of "''web''"]
  have rt: "strip_namespace (to_identifier ''web'') = Some ''web''"
    and inj: "inj_on to_identifier {m. \<not> contains MICRO_TERM_PREFIX m}"
    by simp_all
  from inj free have "to_identifier ''web'' \<noteq> to_identifier ''db''"
    by (auto dest: inj_onD)
  with rt free show ?thesis
    by (simp add: to_identifier_def MICRO_TERM_PREFIX_def)
qed


section \<open>The liveness query\<close>

text \<open>
  Claim C5. For every identifier, tool path and state of the outside world:
  when the \<open>has-session\<close> query raises (a timeout, an unreachable server, any other
  fault), \<open>session_exists\<close> returns false; and it returns true exactly when the query
  completes with exit status zero. It has no other outcome.
\<close>

theorem session_exists_absence_on_uncertainty:
  "(\<forall>e w'. run P [t, ''has-session'', ''-t'', s] 3 w = (Inl e, w')
        \<longrightarrow> session_exists P t s w = (False, w'))
   \<and> (fst (session_exists P t s w)
        \<longleftrightarrow> (\<exists>cp w'. run P [t, ''has-session'', ''-t'', s] 3 w = (Inr cp, w')
                      \<and> returncode cp = 0))"
  by (auto simp: session_exists_def subprocess_run_def split: prod.splits sum.splits)

theorem session_exists_absence_on_uncertainty_witness:
  "session_exists reference_platform ''/usr/bin/tmux'' ''aitx-micro-a''
      ((server0 [''aitx-micro-a''])\<lparr>fault := Some (TimeoutExpired ''timed out after 3 seconds'')\<rparr>)
     = (False, (server0 [''aitx-micro-a''])
          \<lparr>fault := Some (TimeoutExpired ''timed out after 3 seconds''),
           invocations := [[''/usr/bin/tmux'', ''has-session'', ''-t'', ''aitx-micro-a'']]\<rparr>)
   \<and> fst (session_exists reference_platform ''/usr/bin/tmux'' ''aitx-micro-a''
            (server0 [''aitx-micro-a'']))
   \<and> \<not> fst (session_exists reference_platform ''/usr/bin/tmux'' ''aitx-micro-a''
              (server0 [''main'']))"
proof -
  let ?P = reference_platform
  let ?hung = "(server0 [''aitx-micro-a''])
                 \<lparr>fault := Some (TimeoutExpired ''timed out after 3 seconds'')\<rparr>"
  have r1: "run ?P [''/usr/bin/tmux'', ''has-session'', ''-t'', ''aitx-micro-a''] 3 ?hung
            = (Inl (TimeoutExpired ''timed out after 3 seconds''),
               ?hung\<lparr>invocations :=
                        [[''/usr/bin/tmux'', ''has-session'', ''-t'', ''aitx-micro-a'']]\<rparr>)"
    by (simp add: reference_platform_def server_run_def server0_def)
  have r2: "\<exists>cp w'. run ?P [''/usr/bin/tmux'', ''has-session'', ''-t'', ''aitx-micro-a''] 3
                 (server0 [''aitx-micro-a'']) = (Inr cp, w') \<and> returncode cp = 0"
    by (simp add: reference_platform_def server_run_def server0_def server_answer_def
                  exited_def)
  have r3: "\<not> (\<exists>cp w'. run ?P [''/usr/bin/tmux'', ''has-session'', ''-t'', ''aitx-micro-a''] 3
                 (server0 [''main'']) = (Inr cp, w') \<and> returncode cp = 0)"
    by (simp add: reference_platform_def server_run_def server0_def server_answer_def
                  exited_def)
  from session_exists_absence_on_uncertainty
         [of ?P "''/usr/bin/tmux''" "''aitx-micro-a''" ?hung] r1
       session_exists_absence_on_uncertainty
         [of ?P "''/usr/bin/tmux''" "''aitx-micro-a''" "server0 [''aitx-micro-a'']"] r2
       session_exists_absence_on_uncertainty
         [of ?P "''/usr/bin/tmux''" "''aitx-micro-a''" "server0 [''main'']"] r3
  show ?thesis by (simp add: server0_def)
qed



section \<open>Creating a session\<close>

lemmas eval_defs =
  create_micro_terminal_def destroy_micro_terminal_def send_to_micro_terminal_def
  attach_micro_terminal_def list_micro_terminals_def session_exists_def start_cmd_of_def
  subprocess_run_def get_tmux_path_def get_docker_path_def get_ssh_path_def
  reference_platform_def server_run_def server_answer_def server_popen_def exited_def
  server0_def truthy_def VM_TYPES_def MICRO_TERM_PREFIX_def to_identifier_def diagnostic_def Let_def

lemma create_local_on_empty_server:
  "create_micro_terminal reference_platform ''a'' ''local'' None (server0 [])
   = ((True, Some ''aitx-micro-a'', ''Micro terminal 'a' created successfully.''),
      \<lparr>sessions = [''aitx-micro-a''], installed = [''tmux''], fault = None,
       invocations = [[''/usr/bin/tmux'', ''has-session'', ''-t'', ''aitx-micro-a''],
                      [''/usr/bin/tmux'', ''new-session'', ''-d'', ''-s'', ''aitx-micro-a'',
                       ''/bin/bash'']]\<rparr>)"
  by (simp add: eval_defs)

text \<open>
  Claim C1. Whenever the multiplexer tool is found, the backend kind is one of
  \<open>VM_TYPES\<close> and the liveness query reports a session with the identifier of \<open>n\<close>,
  \<open>create_micro_terminal\<close> fails with the "already exists" message and returns the
  identifier, whatever the target is. In particular, when a first creation of a local
  session \<open>n\<close> has succeeded and the server then reports that session, a second creation
  fails in that way. The liveness query is the only guard: when it answers false, the
  \<open>new-session\<close> command of a local session is started, whatever the server holds.
\<close>

theorem create_already_exists:
  "(truthy (get_tmux_path P w) \<and> vm_type \<in> set VM_TYPES
      \<and> fst (session_exists P (the (get_tmux_path P w)) (to_identifier n) w)
    \<longrightarrow> fst (create_micro_terminal P n vm_type vm_target w)
          = (False, Some (to_identifier n),
             ''Micro terminal '' @ [CHR 0x27] @ n @ [CHR 0x27] @ '' already exists.''))
   \<and> (create_micro_terminal P n ''local'' None w = ((True, sid, msg), w1)
      \<and> truthy (get_tmux_path P w1)
      \<and> fst (session_exists P (the (get_tmux_path P w1)) (to_identifier n) w1)
    \<longrightarrow> fst (create_micro_terminal P n ''local'' None w1)
          = (False, Some (to_identifier n),
             ''Micro terminal '' @ [CHR 0x27] @ n @ [CHR 0x27] @ '' already exists.''))
   \<and> (truthy (get_tmux_path P w)
      \<and> session_exists P (the (get_tmux_path P w)) (to_identifier n) w = (False, w0)
    \<longrightarrow> snd (create_micro_terminal P n ''local'' None w)
          = snd (run P [the (get_tmux_path P w), ''new-session'', ''-d'', ''-s'',
                        to_identifier n,
                        (case environ_get P ''SHELL'' w0 of
                           None \<Rightarrow> ''/bin/bash'' | Some sh \<Rightarrow> sh)] 10 w0))"
  by (auto simp: create_micro_terminal_def to_identifier_def Let_def VM_TYPES_def
                 start_cmd_of_def subprocess_run_def
           split: prod.splits bool.splits sum.splits exn.splits)

theorem create_already_exists_witness:
  "fst (create_micro_terminal reference_platform ''a'' ''local'' None (server0 []))
     = (True, Some ''aitx-micro-a'', ''Micro terminal 'a' created successfully.'')
   \<and> fst (create_micro_terminal reference_platform ''a'' ''local'' None
            (snd (create_micro_terminal reference_platform ''a'' ''local'' None (server0 []))))
     = (False, Some ''aitx-micro-a'', ''Micro terminal 'a' already exists.'')
   \<and> fst (create_micro_terminal reference_platform ''a'' ''docker'' (Some ''c1'')
            (server0 [''aitx-micro-a'']))
     = (False, Some ''aitx-micro-a'', ''Micro terminal 'a' already exists.'')
   \<and> invocations (snd (create_micro_terminal reference_platform ''a'' ''local'' None
                         ((server0 [''aitx-micro-a''])
                            \<lparr>fault := Some (TimeoutExpired ''timed out'')\<rparr>)))
     = [[''/usr/bin/tmux'', ''has-session'', ''-t'', ''aitx-micro-a''],
        [''/usr/bin/tmux'', ''new-session'', ''-d'', ''-s'', ''aitx-micro-a'', ''/bin/bash'']]"
proof -
  let ?P = reference_platform
  let ?has = "[''/usr/bin/tmux'', ''has-session'', ''-t'', ''aitx-micro-a'']"
  let ?new = "[''/usr/bin/tmux'', ''new-session'', ''-d'', ''-s'', ''aitx-micro-a'',
               ''/bin/bash'']"
  let ?made = "\<lparr>sessions = [''aitx-micro-a''], installed = [''tmux''], fault = None,
                invocations = [?has, ?new]\<rparr>"
  let ?up = "server0 [''aitx-micro-a'']"
  let ?hung = "(server0 [''aitx-micro-a''])\<lparr>fault := Some (TimeoutExpired ''timed out'')\<rparr>"
  have tool: "truthy (get_tmux_path ?P ?made)" "truthy (get_tmux_path ?P ?up)"
    "truthy (get_tmux_path ?P ?hung)" "the (get_tmux_path ?P ?hung) = ''/usr/bin/tmux''"
    "''docker'' \<in> set VM_TYPES" "''local'' \<in> set VM_TYPES"
    "to_identifier ''a'' = ''aitx-micro-a''"
    by (simp_all add: eval_defs)
  have there: "fst (session_exists ?P (the (get_tmux_path ?P ?made)) (to_identifier ''a'') ?made)"
    "fst (session_exists ?P (the (get_tmux_path ?P ?up)) (to_identifier ''a'') ?up)"
    by (simp_all add: eval_defs)
  have unsure: "session_exists ?P ''/usr/bin/tmux'' ''aitx-micro-a'' ?hung
                = (False, ?hung\<lparr>invocations := [?has]\<rparr>)"
    by (simp add: eval_defs)
  have started: "snd (run ?P ?new 10 (?hung\<lparr>invocations := [?has]\<rparr>))
                 = ?hung\<lparr>invocations := [?has, ?new]\<rparr>"
    "environ_get ?P ''SHELL'' (?hung\<lparr>invocations := [?has]\<rparr>) = None"
    by (simp_all add: eval_defs)
  note C = create_already_exists [where P = ?P and n = "''a''"]
  have second: "fst (create_micro_terminal ?P ''a'' ''local'' None ?made)
                = (False, Some ''aitx-micro-a'', ''Micro terminal 'a' already exists.'')"
    using C [THEN conjunct2, THEN conjunct1, rule_format,
             where w = "server0 []" and sid = "Some ''aitx-micro-a''"
               and msg = "''Micro terminal 'a' created successfully.''" and ?w1.0 = ?made]
          create_local_on_empty_server tool there
    by simp
  have other: "fst (create_micro_terminal ?P ''a'' ''docker'' (Some ''c1'') ?up)
               = (False, Some ''aitx-micro-a'', ''Micro terminal 'a' already exists.'')"
    using C [THEN conjunct1, rule_format,
             where w = ?up and vm_type = "''docker''" and vm_target = "Some ''c1''"]
          tool there
    by simp
  have guard: "snd (create_micro_terminal ?P ''a'' ''local'' None ?hung)
               = ?hung\<lparr>invocations := [?has, ?new]\<rparr>"
    using C [THEN conjunct2, THEN conjunct2, rule_format,
             where w = ?hung and ?w0.0 = "?hung\<lparr>invocations := [?has]\<rparr>"]
          tool unsure started
    by simp
  from second other guard create_local_on_empty_server show ?thesis
    by (simp add: server0_def)
qed

text \<open>
  Claim C9. Whatever \<open>create_micro_terminal\<close> returns, the second component of the
  result is the identifier of the name when the call succeeded or failed with the
  "already exists" message, and \<open>None\<close> otherwise; and a failure carries an identifier
  exactly on the path where the tool is found, the backend kind is known and the
  liveness query reports the session.
\<close>

theorem create_identifier_position:
  assumes "create_micro_terminal P n vm_type vm_target w = ((ok, sid, msg), w')"
  shows "sid = (if ok \<or> msg = ''Micro terminal '' @ [CHR 0x27] @ n @ [CHR 0x27]
                                  @ '' already exists.''
                then Some (to_identifier n) else None)
         \<and> ((\<not> ok \<and> sid \<noteq> None)
              \<longleftrightarrow> (truthy (get_tmux_path P w) \<and> vm_type \<in> set VM_TYPES
                    \<and> fst (session_exists P (the (get_tmux_path P w)) (to_identifier n) w)))"
  using assms
  by (auto simp: create_micro_terminal_def to_identifier_def Let_def start_cmd_of_def
           split: prod.splits bool.splits sum.splits exn.splits if_splits)

theorem create_identifier_position_witness:
  "fst (create_micro_terminal reference_platform ''b'' ''ssh'' None (server0 []))
     = (False, None, ''ssh vm_type requires a user@host target (vm_target).'')
   \<and> fst (create_micro_terminal reference_platform ''b'' ''ssh'' None (server0 [''aitx-micro-b'']))
     = (False, Some ''aitx-micro-b'', ''Micro terminal 'b' already exists.'')
   \<and> fst (session_exists reference_platform ''/usr/bin/tmux'' ''aitx-micro-b''
            (server0 [''aitx-micro-b'']))"
proof -
  let ?P = reference_platform
  have absent: "create_micro_terminal ?P ''b'' ''ssh'' None (server0 [])
      = ((False, None, ''ssh vm_type requires a user@host target (vm_target).''),
         (server0 [])\<lparr>invocations :=
            [[''/usr/bin/tmux'', ''has-session'', ''-t'', ''aitx-micro-b'']]\<rparr>)"
    by (simp add: eval_defs)
  have present: "create_micro_terminal ?P ''b'' ''ssh'' None (server0 [''aitx-micro-b''])
      = ((False, Some ''aitx-micro-b'', ''Micro terminal 'b' already exists.''),
         (server0 [''aitx-micro-b''])\<lparr>invocations :=
            [[''/usr/bin/tmux'', ''has-session'', ''-t'', ''aitx-micro-b'']]\<rparr>)"
    by (simp add: eval_defs)
  have tool: "get_tmux_path ?P (server0 [''aitx-micro-b'']) = Some ''/usr/bin/tmux''"
    by (simp add: eval_defs)
  from create_identifier_position [OF absent] create_identifier_position [OF present]
       absent present tool
  show ?thesis by (simp add: to_identifier_def MICRO_TERM_PREFIX_def)
qed

text \<open>
  Claim C3, as stated, fails: with the tool installed and no session on the server,
  \<open>create("x", "docker", "")\<close> does return the missing-target failure, but it has
  started the \<open>has-session\<close> query first.
\<close>

theorem create_missing_target_counterexample:
  "create_micro_terminal reference_platform ''x'' ''docker'' (Some []) (server0 [])
     = ((False, None, ''docker vm_type requires a container name/ID (vm_target).''),
        (server0 [])\<lparr>invocations :=
           [[''/usr/bin/tmux'', ''has-session'', ''-t'', ''aitx-micro-x'']]\<rparr>)
   \<and> invocations (snd (create_micro_terminal reference_platform ''x'' ''docker'' (Some [])
                         (server0 []))) \<noteq> []"
  by (simp add: eval_defs)

text \<open>
  The two checks that come before the target check can also answer in its place.
\<close>

lemma create_missing_target_preempted:
  "fst (create_micro_terminal reference_platform ''x'' ''docker'' (Some [])
          (server0 [''aitx-micro-x'']))
     = (False, Some ''aitx-micro-x'', ''Micro terminal 'x' already exists.'')"
  "fst (create_micro_terminal reference_platform ''x'' ''docker'' (Some [])
          ((server0 [])\<lparr>installed := []\<rparr>))
     = (False, None, ''tmux is not installed or not found in PATH.'')"
  by (simp_all add: eval_defs)

text \<open>
  Claim C3, amended. When the multiplexer tool is found and the liveness query does not
  report the session, creating a \<open>docker\<close> session with an absent or empty target
  returns the missing-target failure with no identifier, and the outside world is left
  as the one \<open>has-session\<close> query left it: no other process is started.
\<close>

theorem create_missing_target:
  assumes "truthy (get_tmux_path P w)"
      and "\<not> fst (session_exists P (the (get_tmux_path P w)) (to_identifier n) w)"
      and "\<not> truthy vm_target"
  shows "create_micro_terminal P n ''docker'' vm_target w
         = ((False, None, ''docker vm_type requires a container name/ID (vm_target).''),
            snd (run P [the (get_tmux_path P w), ''has-session'', ''-t'', to_identifier n] 3 w))"
  using assms
  by (auto simp: create_micro_terminal_def to_identifier_def Let_def start_cmd_of_def
        VM_TYPES_def session_exists_def subprocess_run_def
           split: prod.splits bool.splits sum.splits)

theorem create_missing_target_witness:
  "create_micro_terminal reference_platform ''x'' ''docker'' (Some []) (server0 [''main''])
     = ((False, None, ''docker vm_type requires a container name/ID (vm_target).''),
        (server0 [''main''])\<lparr>invocations :=
           [[''/usr/bin/tmux'', ''has-session'', ''-t'', ''aitx-micro-x'']]\<rparr>)"
proof -
  let ?P = reference_platform
  let ?up = "server0 [''main'']"
  have tool: "truthy (get_tmux_path ?P ?up)"
    by (simp add: eval_defs)
  have absent: "\<not> fst (session_exists ?P (the (get_tmux_path ?P ?up)) (to_identifier ''x'') ?up)"
    by (simp add: eval_defs)
  have target: "\<not> truthy (Some [])"
    by (simp add: truthy_def)
  have query: "snd (run ?P [the (get_tmux_path ?P ?up), ''has-session'', ''-t'',
                            to_identifier ''x''] 3 ?up)
               = ?up\<lparr>invocations :=
                       [[''/usr/bin/tmux'', ''has-session'', ''-t'', ''aitx-micro-x'']]\<rparr>"
    by (simp add: eval_defs)
  from create_missing_target [OF tool absent target] query
  show ?thesis by simp
qed



section \<open>Failures of the external tool\<close>

lemmas string_eval =
  says_not_found_def strip_def isspace_def lower_def lower_char_def char_of_eq_iff
  startswith_def splitlines_def is_linebreak_def split_def


text \<open>
  Claim C6. When the tool is found and the \<open>kill-session\<close> (for \<open>destroy\<close>) or
  \<open>send-keys\<close> (for \<open>send\<close>) invocation completes with a non-zero exit status, the
  operation fails with the "not found" message exactly when the diagnostic text, put in
  lower case, contains \<open>session not found\<close> or \<open>no server running\<close>, and with the
  generic failure message followed by the diagnostic text otherwise. The diagnostic text
  is the stripped diagnostic stream, or the text of the exception when that stream is
  empty. The two messages of an operation are never equal.
\<close>

theorem not_found_classification:
  "(truthy (get_tmux_path P w)
      \<and> run P [the (get_tmux_path P w), ''kill-session'', ''-t'', to_identifier n] 5 w
          = (Inr cp, w')
      \<and> returncode cp \<noteq> 0
      \<and> err = diagnostic (stderr cp)
                 (cpe_str P [the (get_tmux_path P w), ''kill-session'', ''-t'', to_identifier n]
                    (returncode cp))
    \<longrightarrow> destroy_micro_terminal P n w
          = ((False,
              if contains ''session not found'' (lower err)
                 \<or> contains ''no server running'' (lower err)
              then ''Micro terminal '' @ [CHR 0x27] @ n @ [CHR 0x27] @ '' not found.''
              else ''Failed to destroy micro terminal: '' @ err), w'))
   \<and> (truthy (get_tmux_path P w)
      \<and> run P [the (get_tmux_path P w), ''send-keys'', ''-t'', to_identifier n @ '':0.0'',
               command, ''C-m''] 5 w
          = (Inr cp, w')
      \<and> returncode cp \<noteq> 0
      \<and> err = diagnostic (stderr cp)
                 (cpe_str P [the (get_tmux_path P w), ''send-keys'', ''-t'',
                             to_identifier n @ '':0.0'', command, ''C-m''] (returncode cp))
    \<longrightarrow> send_to_micro_terminal P n command w
          = ((False,
              if contains ''session not found'' (lower err)
                 \<or> contains ''no server running'' (lower err)
              then ''Micro terminal '' @ [CHR 0x27] @ n @ [CHR 0x27]
                   @ '' not found or has been closed.''
              else ''Failed to send command: '' @ err), w'))
   \<and> ''Micro terminal '' @ [CHR 0x27] @ n @ [CHR 0x27] @ '' not found.''
        \<noteq> ''Failed to destroy micro terminal: '' @ err
   \<and> ''Micro terminal '' @ [CHR 0x27] @ n @ [CHR 0x27] @ '' not found or has been closed.''
        \<noteq> ''Failed to send command: '' @ err"
  by (simp add: destroy_micro_terminal_def send_to_micro_terminal_def subprocess_run_def
        says_not_found_def to_identifier_def Let_def)

theorem not_found_classification_witness:
  "destroy_micro_terminal reference_platform ''a'' (server0 [])
     = ((False, ''Micro terminal 'a' not found.''),
        (server0 [])\<lparr>invocations :=
           [[''/usr/bin/tmux'', ''kill-session'', ''-t'', ''aitx-micro-a'']]\<rparr>)
   \<and> send_to_micro_terminal reference_platform ''a'' ''ls'' (server0 [''main''])
     = ((False, ''Failed to send command: can't find pane: aitx-micro-a:0.0''),
        (server0 [''main''])\<lparr>invocations :=
           [[''/usr/bin/tmux'', ''send-keys'', ''-t'', ''aitx-micro-a:0.0'', ''ls'', ''C-m'']]\<rparr>)"
proof -
  let ?P = reference_platform
  let ?down = "server0 []"
  let ?up = "server0 [''main'']"
  let ?kill = "[''/usr/bin/tmux'', ''kill-session'', ''-t'', ''aitx-micro-a'']"
  let ?keys = "[''/usr/bin/tmux'', ''send-keys'', ''-t'', ''aitx-micro-a:0.0'', ''ls'', ''C-m'']"
  let ?cp1 = "exited 1 [] (''no server running on /tmp/tmux-0/default'' @ [CHR 0x0A])"
  let ?cp2 = "exited 1 [] (''can't find pane: aitx-micro-a:0.0'' @ [CHR 0x0A])"
  have tool: "truthy (get_tmux_path ?P ?down)" "truthy (get_tmux_path ?P ?up)"
    "the (get_tmux_path ?P ?down) = ''/usr/bin/tmux''"
    "the (get_tmux_path ?P ?up) = ''/usr/bin/tmux''"
    "to_identifier ''a'' = ''aitx-micro-a''"
    by (simp_all add: eval_defs)
  have kill: "run ?P ?kill 5 ?down = (Inr ?cp1, ?down\<lparr>invocations := [?kill]\<rparr>)"
    by (simp add: eval_defs)
  have keys: "run ?P ?keys 5 ?up = (Inr ?cp2, ?up\<lparr>invocations := [?keys]\<rparr>)"
    by (simp add: eval_defs)
  have rc: "returncode ?cp1 \<noteq> 0" "returncode ?cp2 \<noteq> 0"
    by (simp_all add: exited_def)
  have d1: "diagnostic (stderr ?cp1) (cpe_str ?P ?kill (returncode ?cp1))
            = ''no server running on /tmp/tmux-0/default''"
    by (simp add: diagnostic_def exited_def strip_def isspace_def)
  have d2: "diagnostic (stderr ?cp2) (cpe_str ?P ?keys (returncode ?cp2))
            = ''can't find pane: aitx-micro-a:0.0''"
    by (simp add: diagnostic_def exited_def strip_def isspace_def)
  have c1: "contains ''no server running''
              (lower ''no server running on /tmp/tmux-0/default'')"
    by (simp add: string_eval)
  have c2: "\<not> contains ''session not found'' (lower ''can't find pane: aitx-micro-a:0.0'')"
           "\<not> contains ''no server running'' (lower ''can't find pane: aitx-micro-a:0.0'')"
    by (simp_all add: string_eval)
  from not_found_classification
         [where P = ?P and w = ?down and n = "''a''" and cp = ?cp1
            and w' = "?down\<lparr>invocations := [?kill]\<rparr>"
            and err = "''no server running on /tmp/tmux-0/default''"]
       tool kill rc d1 c1
  have first: "destroy_micro_terminal ?P ''a'' ?down
     = ((False, ''Micro terminal 'a' not found.''), ?down\<lparr>invocations := [?kill]\<rparr>)"
    by simp
  from not_found_classification
         [where P = ?P and w = ?up and n = "''a''" and cp = ?cp2 and command = "''ls''"
            and w' = "?up\<lparr>invocations := [?keys]\<rparr>"
            and err = "''can't find pane: aitx-micro-a:0.0''"]
       tool keys rc d2 c2
  have second: "send_to_micro_terminal ?P ''a'' ''ls'' ?up
     = ((False, ''Failed to send command: can't find pane: aitx-micro-a:0.0''),
        ?up\<lparr>invocations := [?keys]\<rparr>)"
    by simp
  from first second show ?thesis by simp
qed

text \<open>
  Claim C7, as stated, fails for \<open>list\<close> and \<open>exists\<close>: they return a bare list and a
  bare truth value, with neither flag nor message. A query that times out and a query
  that succeeds on a server with no micro terminal give the same result.
\<close>

theorem flag_and_message_counterexample:
  "fst (list_micro_terminals reference_platform
          ((server0 [''main''])\<lparr>fault := Some (TimeoutExpired ''timed out after 5 seconds'')\<rparr>))
     = []
   \<and> fst (list_micro_terminals reference_platform (server0 [''main''])) = []
   \<and> fst (session_exists reference_platform ''/usr/bin/tmux'' ''aitx-micro-a''
            ((server0 [''main''])\<lparr>fault := Some (TimeoutExpired ''timed out after 3 seconds'')\<rparr>))
     = False
   \<and> fst (session_exists reference_platform ''/usr/bin/tmux'' ''aitx-micro-a''
            (server0 [''main''])) = False"
  by (simp add: eval_defs string_eval)


lemma start_cmd_message: "start_cmd_of P vm_type vm_target w = Inl msg \<Longrightarrow> msg \<noteq> []"
  by (auto simp: start_cmd_of_def Let_def split: if_splits)

text \<open>
  Claim C7, amended. The message that create, destroy, send and attach return with
  their flag is never empty. A fault raised by the external invocation of an
  operation, where a fault is an instance of \<open>Exception\<close> such as a timeout, decides
  the returned value as follows. Raised by \<open>new-session\<close> in create, by \<open>kill-session\<close>
  in destroy, by \<open>send-keys\<close> in send or by the launch of the terminal in attach, it
  gives the flag false with a non-empty message, and no identifier for create. Raised
  by \<open>list-sessions\<close>, it gives the empty list. Raised by \<open>has-session\<close>, it gives
  false for \<open>session_exists\<close>; inside attach that is the "not found" failure, and
  inside create the session counts as absent and creation goes on, so that create
  succeeds when \<open>new-session\<close> then completes with exit status zero.
\<close>

theorem faults_normalised:
  "snd (snd (fst (create_micro_terminal P n vm_type vm_target w))) \<noteq> []
   \<and> snd (fst (destroy_micro_terminal P n w)) \<noteq> []
   \<and> snd (fst (send_to_micro_terminal P n command w)) \<noteq> []
   \<and> snd (fst (attach_micro_terminal P n vtp w)) \<noteq> []
   \<and> (truthy (get_tmux_path P w) \<and> vm_type \<in> set VM_TYPES
      \<and> session_exists P (the (get_tmux_path P w)) (to_identifier n) w = (False, w1)
      \<and> start_cmd_of P vm_type vm_target w1 = Inr c
      \<and> run P [the (get_tmux_path P w), ''new-session'', ''-d'', ''-s'', to_identifier n, c]
             10 w1 = (Inl e, w2)
    \<longrightarrow> (\<exists>msg. msg \<noteq> []
            \<and> create_micro_terminal P n vm_type vm_target w = ((False, None, msg), w2)))
   \<and> (truthy (get_tmux_path P w)
      \<and> run P [the (get_tmux_path P w), ''kill-session'', ''-t'', to_identifier n] 5 w
          = (Inl e, w1)
    \<longrightarrow> (\<exists>msg. msg \<noteq> [] \<and> destroy_micro_terminal P n w = ((False, msg), w1)))
   \<and> (truthy (get_tmux_path P w)
      \<and> run P [the (get_tmux_path P w), ''send-keys'', ''-t'', to_identifier n @ '':0.0'',
               command, ''C-m''] 5 w = (Inl e, w1)
    \<longrightarrow> (\<exists>msg. msg \<noteq> [] \<and> send_to_micro_terminal P n command w = ((False, msg), w1)))
   \<and> (truthy (get_tmux_path P w) \<and> truthy vtp
      \<and> session_exists P (the (get_tmux_path P w)) (to_identifier n) w = (True, w1)
      \<and> popen P [the vtp, ''-T'', ''Micro Terminal: '' @ n, ''-e'',
                 ''bash -c '' @ [CHR 0x22] @ shlex_quote (the (get_tmux_path P w))
                 @ '' attach-session -t '' @ shlex_quote (to_identifier n) @ [CHR 0x22]] w1
          = (Some e, w2)
    \<longrightarrow> (\<exists>msg. msg \<noteq> [] \<and> attach_micro_terminal P n vtp w = ((False, msg), w2)))
   \<and> (truthy (get_tmux_path P w)
      \<and> run P [the (get_tmux_path P w), ''list-sessions'', ''-F'', ''#{session_name}''] 5 w
          = (Inl e, w1)
    \<longrightarrow> list_micro_terminals P w = ([], w1))
   \<and> (run P [t, ''has-session'', ''-t'', s] 3 w = (Inl e, w1)
    \<longrightarrow> session_exists P t s w = (False, w1))
   \<and> (truthy (get_tmux_path P w) \<and> truthy vtp
      \<and> run P [the (get_tmux_path P w), ''has-session'', ''-t'', to_identifier n] 3 w
          = (Inl e, w1)
    \<longrightarrow> attach_micro_terminal P n vtp w
          = ((False, ''Micro terminal '' @ [CHR 0x27] @ n @ [CHR 0x27] @ '' not found.''), w1))
   \<and> (truthy (get_tmux_path P w) \<and> vm_type \<in> set VM_TYPES
      \<and> run P [the (get_tmux_path P w), ''has-session'', ''-t'', to_identifier n] 3 w
          = (Inl e, w1)
      \<and> start_cmd_of P vm_type vm_target w1 = Inr c
      \<and> run P [the (get_tmux_path P w), ''new-session'', ''-d'', ''-s'', to_identifier n, c]
             10 w1 = (Inr cp, w2)
      \<and> returncode cp = 0
    \<longrightarrow> create_micro_terminal P n vm_type vm_target w
          = ((True, Some (to_identifier n),
              ''Micro terminal '' @ [CHR 0x27] @ n @ [CHR 0x27] @ '' created successfully.''),
             w2))"
proof (intro conjI impI; (elim conjE)?)
  obtain ok sid msg w' where
    r: "create_micro_terminal P n vm_type vm_target w = ((ok, sid, msg), w')"
    by (metis prod.exhaust)
  then have "msg \<noteq> []"
    by (auto simp: create_micro_terminal_def Let_def
             split: if_splits prod.splits bool.splits sum.splits exn.splits
             dest: start_cmd_message)
  with r show "snd (snd (fst (create_micro_terminal P n vm_type vm_target w))) \<noteq> []"
    by simp
next
  show "snd (fst (destroy_micro_terminal P n w)) \<noteq> []"
    by (auto simp: destroy_micro_terminal_def Let_def
             split: prod.splits sum.splits exn.splits)
next
  show "snd (fst (send_to_micro_terminal P n command w)) \<noteq> []"
    by (auto simp: send_to_micro_terminal_def Let_def
             split: prod.splits sum.splits exn.splits)
next
  show "snd (fst (attach_micro_terminal P n vtp w)) \<noteq> []"
    by (auto simp: attach_micro_terminal_def Let_def
             split: prod.splits bool.splits option.splits exn.splits)
next
  assume "truthy (get_tmux_path P w)" "vm_type \<in> set VM_TYPES"
    "session_exists P (the (get_tmux_path P w)) (to_identifier n) w = (False, w1)"
    "start_cmd_of P vm_type vm_target w1 = Inr c"
    "run P [the (get_tmux_path P w), ''new-session'', ''-d'', ''-s'', to_identifier n, c]
             10 w1 = (Inl e, w2)"
  then show "\<exists>msg. msg \<noteq> []
            \<and> create_micro_terminal P n vm_type vm_target w = ((False, None, msg), w2)"
    by (cases e) (simp_all add: create_micro_terminal_def subprocess_run_def
                     to_identifier_def Let_def)
next
  assume "truthy (get_tmux_path P w)"
    "run P [the (get_tmux_path P w), ''kill-session'', ''-t'', to_identifier n] 5 w
          = (Inl e, w1)"
  then show "\<exists>msg. msg \<noteq> [] \<and> destroy_micro_terminal P n w = ((False, msg), w1)"
    by (cases e) (simp_all add: destroy_micro_terminal_def subprocess_run_def
                     to_identifier_def Let_def)
next
  assume "truthy (get_tmux_path P w)"
    "run P [the (get_tmux_path P w), ''send-keys'', ''-t'', to_identifier n @ '':0.0'',
               command, ''C-m''] 5 w = (Inl e, w1)"
  then show "\<exists>msg. msg \<noteq> [] \<and> send_to_micro_terminal P n command w = ((False, msg), w1)"
    by (cases e) (simp_all add: send_to_micro_terminal_def subprocess_run_def
                     to_identifier_def Let_def)
next
  assume "truthy (get_tmux_path P w)" "truthy vtp"
    "session_exists P (the (get_tmux_path P w)) (to_identifier n) w = (True, w1)"
    "popen P [the vtp, ''-T'', ''Micro Terminal: '' @ n, ''-e'',
                 ''bash -c '' @ [CHR 0x22] @ shlex_quote (the (get_tmux_path P w))
                 @ '' attach-session -t '' @ shlex_quote (to_identifier n) @ [CHR 0x22]] w1
          = (Some e, w2)"
  then show "\<exists>msg. msg \<noteq> [] \<and> attach_micro_terminal P n vtp w = ((False, msg), w2)"
    by (cases e) (simp_all add: attach_micro_terminal_def to_identifier_def Let_def)
next
  assume "truthy (get_tmux_path P w)"
    "run P [the (get_tmux_path P w), ''list-sessions'', ''-F'', ''#{session_name}''] 5 w
          = (Inl e, w1)"
  then show "list_micro_terminals P w = ([], w1)"
    by (simp add: list_micro_terminals_def subprocess_run_def Let_def)
next
  assume "run P [t, ''has-session'', ''-t'', s] 3 w = (Inl e, w1)"
  then show "session_exists P t s w = (False, w1)"
    by (simp add: session_exists_def subprocess_run_def)
next
  assume "truthy (get_tmux_path P w)" "truthy vtp"
    "run P [the (get_tmux_path P w), ''has-session'', ''-t'', to_identifier n] 3 w
          = (Inl e, w1)"
  then show "attach_micro_terminal P n vtp w
          = ((False, ''Micro terminal '' @ [CHR 0x27] @ n @ [CHR 0x27] @ '' not found.''), w1)"
    by (simp add: attach_micro_terminal_def session_exists_def subprocess_run_def
                  to_identifier_def Let_def)
next
  assume "truthy (get_tmux_path P w)" "vm_type \<in> set VM_TYPES"
    "run P [the (get_tmux_path P w), ''has-session'', ''-t'', to_identifier n] 3 w
          = (Inl e, w1)"
    "start_cmd_of P vm_type vm_target w1 = Inr c"
    "run P [the (get_tmux_path P w), ''new-session'', ''-d'', ''-s'', to_identifier n, c]
             10 w1 = (Inr cp, w2)"
    "returncode cp = 0"
  then show "create_micro_terminal P n vm_type vm_target w
          = ((True, Some (to_identifier n),
              ''Micro terminal '' @ [CHR 0x27] @ n @ [CHR 0x27] @ '' created successfully.''),
             w2)"
    by (simp add: create_micro_terminal_def session_exists_def subprocess_run_def
                  to_identifier_def Let_def)
qed

theorem faults_normalised_witness:
  "create_micro_terminal reference_platform ''a'' ''local'' None
      ((server0 [])\<lparr>fault := Some (TimeoutExpired ''timed out'')\<rparr>)
     = ((False, None, ''Unexpected error creating micro terminal: timed out''),
        (server0 [])\<lparr>fault := Some (TimeoutExpired ''timed out''),
           invocations := [[''/usr/bin/tmux'', ''has-session'', ''-t'', ''aitx-micro-a''],
                           [''/usr/bin/tmux'', ''new-session'', ''-d'', ''-s'', ''aitx-micro-a'',
                            ''/bin/bash'']]\<rparr>)
   \<and> \<not> fst (fst (destroy_micro_terminal reference_platform ''a''
                     ((server0 [])\<lparr>fault := Some (TimeoutExpired ''timed out'')\<rparr>)))
   \<and> \<not> fst (fst (send_to_micro_terminal reference_platform ''a'' ''ls''
                     ((server0 [])\<lparr>fault := Some (TimeoutExpired ''timed out'')\<rparr>)))
   \<and> fst (attach_micro_terminal reference_platform ''a'' (Some ''/usr/bin/xterm'')
            (server0 [''aitx-micro-a'']))
       = (False, ''Visual terminal '/usr/bin/xterm' not found.'')
   \<and> fst (list_micro_terminals reference_platform
            ((server0 [''aitx-micro-a''])\<lparr>fault := Some (TimeoutExpired ''timed out'')\<rparr>)) = []
   \<and> \<not> fst (session_exists reference_platform ''/usr/bin/tmux'' ''aitx-micro-a''
              ((server0 [''aitx-micro-a''])\<lparr>fault := Some (TimeoutExpired ''timed out'')\<rparr>))
   \<and> fst (attach_micro_terminal reference_platform ''a'' (Some ''/usr/bin/xterm'')
            ((server0 [''aitx-micro-a''])\<lparr>fault := Some (TimeoutExpired ''timed out'')\<rparr>))
       = (False, ''Micro terminal 'a' not found.'')
   \<and> create_micro_terminal deaf_platform ''a'' ''local'' None (server0 [])
       = ((True, Some ''aitx-micro-a'', ''Micro terminal 'a' created successfully.''),
          \<lparr>sessions = [''aitx-micro-a''], installed = [''tmux''], fault = None,
           invocations = [[''/usr/bin/tmux'', ''has-session'', ''-t'', ''aitx-micro-a''],
                          [''/usr/bin/tmux'', ''new-session'', ''-d'', ''-s'', ''aitx-micro-a'',
                           ''/bin/bash'']]\<rparr>)
   \<and> snd (fst (destroy_micro_terminal reference_platform ''a'' (server0 [''aitx-micro-a'']))) \<noteq> []"
proof -
  let ?P = reference_platform
  let ?e = "TimeoutExpired ''timed out''"
  let ?hung = "(server0 [])\<lparr>fault := Some ?e\<rparr>"
  let ?hung' = "(server0 [''aitx-micro-a''])\<lparr>fault := Some ?e\<rparr>"
  let ?up = "server0 [''aitx-micro-a'']"
  let ?has = "[''/usr/bin/tmux'', ''has-session'', ''-t'', ''aitx-micro-a'']"
  let ?new = "[''/usr/bin/tmux'', ''new-session'', ''-d'', ''-s'', ''aitx-micro-a'', ''/bin/bash'']"
  let ?kill = "[''/usr/bin/tmux'', ''kill-session'', ''-t'', ''aitx-micro-a'']"
  let ?keys = "[''/usr/bin/tmux'', ''send-keys'', ''-t'', ''aitx-micro-a:0.0'', ''ls'', ''C-m'']"
  let ?ls = "[''/usr/bin/tmux'', ''list-sessions'', ''-F'', ''#{session_name}'']"
  let ?window = "[''/usr/bin/xterm'', ''-T'', ''Micro Terminal: a'', ''-e'',
                ''bash -c '' @ [CHR 0x22] @ ''/usr/bin/tmux attach-session -t aitx-micro-a''
                @ [CHR 0x22]]"
  let ?asked = "?hung\<lparr>invocations := [?has]\<rparr>"
  let ?tried = "?hung\<lparr>invocations := [?has, ?new]\<rparr>"
  have tool: "truthy (get_tmux_path ?P ?hung)" "the (get_tmux_path ?P ?hung) = ''/usr/bin/tmux''"
    "truthy (get_tmux_path ?P ?hung')" "the (get_tmux_path ?P ?hung') = ''/usr/bin/tmux''"
    "truthy (get_tmux_path ?P ?up)" "the (get_tmux_path ?P ?up) = ''/usr/bin/tmux''"
    "to_identifier ''a'' = ''aitx-micro-a''" "''local'' \<in> set VM_TYPES"
    "truthy (Some ''/usr/bin/xterm'')"
    by (simp_all add: eval_defs)
  have quote: "shlex_quote ''/usr/bin/tmux'' = ''/usr/bin/tmux''"
    "shlex_quote ''aitx-micro-a'' = ''aitx-micro-a''"
    by (simp_all add: shlex_quote_def shlex_safe_def)
  have ex: "session_exists ?P ''/usr/bin/tmux'' ''aitx-micro-a'' ?hung = (False, ?asked)"
    by (simp add: eval_defs)
  have cmd: "start_cmd_of ?P ''local'' None ?asked = Inr ''/bin/bash''"
    by (simp add: eval_defs)
  have new: "run ?P ?new 10 ?asked = (Inl ?e, ?tried)"
    by (simp add: eval_defs)
  have kill: "run ?P ?kill 5 ?hung = (Inl ?e, ?hung\<lparr>invocations := [?kill]\<rparr>)"
    by (simp add: eval_defs)
  have keys: "run ?P ?keys 5 ?hung = (Inl ?e, ?hung\<lparr>invocations := [?keys]\<rparr>)"
    by (simp add: eval_defs)
  have there: "session_exists ?P ''/usr/bin/tmux'' ''aitx-micro-a'' ?up
               = (True, ?up\<lparr>invocations := [?has]\<rparr>)"
    by (simp add: eval_defs)
  have launch: "popen ?P ?window (?up\<lparr>invocations := [?has]\<rparr>)
      = (Some (FileNotFoundError ''No such file or directory: /usr/bin/xterm''),
         ?up\<lparr>invocations := [?has, ?window]\<rparr>)"
    by (simp add: eval_defs)
  have ls: "run ?P ?ls 5 ?hung' = (Inl ?e, ?hung'\<lparr>invocations := [?ls]\<rparr>)"
    by (simp add: eval_defs)
  have has: "run ?P ?has 3 ?hung' = (Inl ?e, ?hung'\<lparr>invocations := [?has]\<rparr>)"
    by (simp add: eval_defs)
  let ?made = "\<lparr>sessions = [''aitx-micro-a''], installed = [''tmux''], fault = None,
                invocations = [?has, ?new]\<rparr>"
  have deaf: "truthy (get_tmux_path deaf_platform (server0 []))"
    "the (get_tmux_path deaf_platform (server0 [])) = ''/usr/bin/tmux''"
    "run deaf_platform ?has 3 (server0 [])
       = (Inl (TimeoutExpired ''timed out after 3 seconds''),
          (server0 [])\<lparr>invocations := [?has]\<rparr>)"
    "start_cmd_of deaf_platform ''local'' None ((server0 [])\<lparr>invocations := [?has]\<rparr>)
       = Inr ''/bin/bash''"
    "run deaf_platform ?new 10 ((server0 [])\<lparr>invocations := [?has]\<rparr>)
       = (Inr (exited 0 [] []), ?made)"
    "returncode (exited 0 [] []) = 0"
    by (simp_all add: eval_defs deaf_platform_def)
  have c: "create_micro_terminal ?P ''a'' ''local'' None ?hung
           = ((False, None, ''Unexpected error creating micro terminal: timed out''), ?tried)"
    by (simp add: eval_defs)
  have a: "fst (attach_micro_terminal ?P ''a'' (Some ''/usr/bin/xterm'') ?up)
           = (False, ''Visual terminal '/usr/bin/xterm' not found.'')"
    by (simp add: eval_defs shlex_quote_def shlex_safe_def)
  note F = faults_normalised [where P = ?P and n = "''a''"]
  have "\<exists>msg. msg \<noteq> [] \<and>
          create_micro_terminal ?P ''a'' ''local'' None ?hung = ((False, None, msg), ?tried)"
    using F [where w = ?hung, THEN conjunct2, THEN conjunct2, THEN conjunct2,
             THEN conjunct2, THEN conjunct1, rule_format,
             where vm_type = "''local''" and vm_target = None and ?w1.0 = ?asked
               and c = "''/bin/bash''" and ?w2.0 = ?tried and e = ?e]
          tool ex cmd new
    by simp
  moreover
  have "\<exists>msg. msg \<noteq> [] \<and> destroy_micro_terminal ?P ''a'' ?hung
           = ((False, msg), ?hung\<lparr>invocations := [?kill]\<rparr>)"
    using F [where w = ?hung, THEN conjunct2, THEN conjunct2, THEN conjunct2,
             THEN conjunct2, THEN conjunct2, THEN conjunct1, rule_format,
             where ?w1.0 = "?hung\<lparr>invocations := [?kill]\<rparr>" and e = ?e]
          tool kill
    by simp
  then have "\<not> fst (fst (destroy_micro_terminal ?P ''a'' ?hung))"
    by auto
  moreover
  have "\<exists>msg. msg \<noteq> [] \<and> send_to_micro_terminal ?P ''a'' ''ls'' ?hung
           = ((False, msg), ?hung\<lparr>invocations := [?keys]\<rparr>)"
    using F [where w = ?hung, THEN conjunct2, THEN conjunct2, THEN conjunct2,
             THEN conjunct2, THEN conjunct2, THEN conjunct2, THEN conjunct1, rule_format,
             where command = "''ls''" and ?w1.0 = "?hung\<lparr>invocations := [?keys]\<rparr>"
               and e = ?e]
          tool keys
    by simp
  then have "\<not> fst (fst (send_to_micro_terminal ?P ''a'' ''ls'' ?hung))"
    by auto
  moreover
  have "\<exists>msg. msg \<noteq> [] \<and> attach_micro_terminal ?P ''a'' (Some ''/usr/bin/xterm'') ?up
           = ((False, msg), ?up\<lparr>invocations := [?has, ?window]\<rparr>)"
    using F [where w = ?up, THEN conjunct2, THEN conjunct2, THEN conjunct2,
             THEN conjunct2, THEN conjunct2, THEN conjunct2, THEN conjunct2, THEN conjunct1,
             rule_format,
             where vtp = "Some ''/usr/bin/xterm''" and ?w1.0 = "?up\<lparr>invocations := [?has]\<rparr>"
               and ?w2.0 = "?up\<lparr>invocations := [?has, ?window]\<rparr>"
               and e = "FileNotFoundError ''No such file or directory: /usr/bin/xterm''"]
          tool there launch quote
    by simp
  then have "\<not> fst (fst (attach_micro_terminal ?P ''a'' (Some ''/usr/bin/xterm'') ?up))"
    by auto
  moreover
  have "list_micro_terminals ?P ?hung' = ([], ?hung'\<lparr>invocations := [?ls]\<rparr>)"
    using F [where w = ?hung', THEN conjunct2, THEN conjunct2, THEN conjunct2,
             THEN conjunct2, THEN conjunct2, THEN conjunct2, THEN conjunct2, THEN conjunct2,
             THEN conjunct1, rule_format,
             where ?w1.0 = "?hung'\<lparr>invocations := [?ls]\<rparr>" and e = ?e]
          tool ls
    by simp
  moreover
  have "session_exists ?P ''/usr/bin/tmux'' ''aitx-micro-a'' ?hung'
          = (False, ?hung'\<lparr>invocations := [?has]\<rparr>)"
    using F [where w = ?hung', THEN conjunct2, THEN conjunct2, THEN conjunct2,
             THEN conjunct2, THEN conjunct2, THEN conjunct2, THEN conjunct2, THEN conjunct2,
             THEN conjunct2, THEN conjunct1, rule_format,
             where t = "''/usr/bin/tmux''" and s = "''aitx-micro-a''"
               and ?w1.0 = "?hung'\<lparr>invocations := [?has]\<rparr>" and e = ?e]
          has
    by simp
  moreover
  have "attach_micro_terminal ?P ''a'' (Some ''/usr/bin/xterm'') ?hung'
          = ((False, ''Micro terminal 'a' not found.''), ?hung'\<lparr>invocations := [?has]\<rparr>)"
    using F [where w = ?hung', THEN conjunct2, THEN conjunct2, THEN conjunct2, THEN conjunct2,
             THEN conjunct2, THEN conjunct2, THEN conjunct2, THEN conjunct2, THEN conjunct2,
             THEN conjunct2, THEN conjunct1, rule_format,
             where vtp = "Some ''/usr/bin/xterm''"
               and ?w1.0 = "?hung'\<lparr>invocations := [?has]\<rparr>" and e = ?e]
          tool has
    by simp
  moreover
  have "create_micro_terminal deaf_platform ''a'' ''local'' None (server0 []) = ((True,
          Some ''aitx-micro-a'', ''Micro terminal 'a' created successfully.''), ?made)"
    using faults_normalised [where P = deaf_platform and n = "''a''" and w = "server0 []",
             THEN conjunct2, THEN conjunct2, THEN conjunct2, THEN conjunct2,
             THEN conjunct2, THEN conjunct2, THEN conjunct2, THEN conjunct2, THEN conjunct2,
             THEN conjunct2, THEN conjunct2, rule_format,
             where vm_type = "''local''" and vm_target = None and c = "''/bin/bash''"
               and e = "TimeoutExpired ''timed out after 3 seconds''"
               and ?w1.0 = "(server0 [])\<lparr>invocations := [?has]\<rparr>"
               and cp = "exited 0 [] []" and ?w2.0 = ?made]
          deaf tool(7,8)
    by simp
  moreover
  have "snd (fst (destroy_micro_terminal ?P ''a'' ?up)) \<noteq> []"
    using F [where w = ?up, THEN conjunct2, THEN conjunct1] .
  ultimately show ?thesis using c a by simp
qed


section \<open>Listing\<close>

text \<open>
  Claim C4 at a server that holds one session, named \<open>aitx-micro-x\<close> with a space in
  front. The output of \<open>list-sessions\<close> is that name and a line feed. The identifier
  does not start with the prefix, so \<open>strip_namespace\<close> gives nothing for it;
  \<open>list_micro_terminals\<close> strips the whole output before it cuts it into lines, and
  reports \<open>x\<close>. In the same way a micro terminal whose name ends with a space, when it
  is the last line, is reported without the space.
\<close>

theorem list_reports_foreign_session:
  "stdout (fst (server_answer [''/usr/bin/tmux'', ''list-sessions'', ''-F'', ''#{session_name}'']
                  (server0 ['' aitx-micro-x''])))
     = '' aitx-micro-x'' @ [CHR 0x0A]
   \<and> strip_namespace '' aitx-micro-x'' = None
   \<and> list_micro_terminals reference_platform (server0 ['' aitx-micro-x''])
     = ([''x''], (server0 ['' aitx-micro-x''])\<lparr>invocations :=
          [[''/usr/bin/tmux'', ''list-sessions'', ''-F'', ''#{session_name}'']]\<rparr>)
   \<and> strip_namespace ''aitx-micro-x '' = Some ''x ''
   \<and> fst (list_micro_terminals reference_platform (server0 [''aitx-micro-x ''])) = [''x'']"
  by (simp add: eval_defs string_eval strip_namespace_def)


text \<open>Foreign sessions between micro terminals are left out, and the order is kept.\<close>

lemma list_examples:
  "fst (list_micro_terminals reference_platform
          (server0 [''aitx-micro-a'', ''main'', ''aitx-micro-b''])) = [''a'', ''b'']"
  by (simp add: eval_defs string_eval)


text \<open>A query that fails gives the empty list.\<close>

lemma list_query_failure:
  "\<not> truthy (get_tmux_path P w) \<Longrightarrow> list_micro_terminals P w = ([], w)"
  "truthy (get_tmux_path P w) \<Longrightarrow>
   run P [the (get_tmux_path P w), ''list-sessions'', ''-F'', ''#{session_name}''] 5 w
     = (Inl e, w') \<Longrightarrow> list_micro_terminals P w = ([], w')"
  "truthy (get_tmux_path P w) \<Longrightarrow>
   run P [the (get_tmux_path P w), ''list-sessions'', ''-F'', ''#{session_name}''] 5 w
     = (Inr cp, w') \<Longrightarrow> returncode cp \<noteq> 0 \<Longrightarrow> list_micro_terminals P w = ([], w')"
  by (simp_all add: list_micro_terminals_def subprocess_run_def Let_def)



section \<open>Tokens\<close>

text \<open>
  The tokens \<open>split\<close> gives are not empty and hold no whitespace; joined with single
  spaces they give a text whose only whitespace is single spaces between tokens.
\<close>

lemma split_from_tokens:
  assumes "\<forall>ch \<in> set acc. \<not> isspace ch" and "t \<in> set (split_from acc s)"
  shows "t \<noteq> [] \<and> (\<forall>ch \<in> set t. \<not> isspace ch)"
  using assms
proof (induction s arbitrary: acc)
  case Nil
  then show ?case by (auto split: if_splits)
next
  case (Cons c cs)
  show ?case
  proof (cases "isspace c")
    case True
    with Cons.prems have "t = rev acc \<and> acc \<noteq> [] \<or> t \<in> set (split_from [] cs)"
      by (auto split: if_splits)
    then show ?thesis
    proof
      assume "t = rev acc \<and> acc \<noteq> []"
      with Cons.prems(1) show ?thesis by auto
    next
      assume "t \<in> set (split_from [] cs)"
      with Cons.IH [of "[]"] show ?thesis by simp
    qed
  next
    case False
    with Cons.prems have "t \<in> set (split_from (c # acc) cs)" by simp
    moreover from False Cons.prems(1) have "\<forall>ch \<in> set (c # acc). \<not> isspace ch" by simp
    ultimately show ?thesis using Cons.IH [of "c # acc"] by blast
  qed
qed

lemma split_tokens:
  "t \<in> set (split s) \<Longrightarrow> t \<noteq> [] \<and> (\<forall>ch \<in> set t. \<not> isspace ch)"
  unfolding split_def using split_from_tokens [of "[]" t s] by simp

lemma join_cons: "join sep (x # xs) = (if xs = [] then x else x @ sep @ join sep xs)"
  by (cases xs) simp_all

lemma join_tokens_set:
  "ch \<in> set (join sep ts) \<Longrightarrow> ch \<in> set sep \<or> (\<exists>t \<in> set ts. ch \<in> set t)"
  by (induction sep ts rule: join.induct) auto

lemma join_tokens_hd:
  assumes "\<forall>t \<in> set ts. t \<noteq> [] \<and> (\<forall>ch \<in> set t. \<not> isspace ch)" and "ts \<noteq> []"
  shows "join sep ts \<noteq> [] \<and> \<not> isspace (hd (join sep ts))"
proof (cases ts)
  case Nil
  with assms show ?thesis by simp
next
  case (Cons x xs)
  with assms have "x \<noteq> []" "\<not> isspace (hd x)" by auto
  with Cons show ?thesis by (simp add: join_cons)
qed

lemma join_tokens_no_run:
  assumes "\<forall>t \<in> set ts. t \<noteq> [] \<and> (\<forall>ch \<in> set t. \<not> isspace ch)"
      and "Suc i < length (join '' '' ts)"
  shows "\<not> (isspace (join '' '' ts ! i) \<and> isspace (join '' '' ts ! Suc i))"
  using assms
proof (induction ts arbitrary: i rule: induct_list012)
  case 1
  then show ?case by simp
next
  case (2 x)
  then have "x ! i \<in> set x" by simp
  with 2 show ?case by auto
next
  case (3 x y ys)
  define r where "r = join '' '' (y # ys)"
  have good: "\<forall>t \<in> set (y # ys). t \<noteq> [] \<and> (\<forall>ch \<in> set t. \<not> isspace ch)"
    using "3.prems"(1) by simp
  have r: "r \<noteq> []" "\<not> isspace (hd r)"
    using join_tokens_hd [OF good, of "'' ''"] by (simp_all add: r_def)
  have x: "\<forall>ch \<in> set x. \<not> isspace ch" using "3.prems"(1) by simp
  have s: "join '' '' (x # y # ys) = x @ CHR '' '' # r" by (simp add: r_def)
  have len: "Suc i < length (x @ CHR '' '' # r)" using "3.prems"(2) s by simp
  have IH: "\<And>j. Suc j < length r \<Longrightarrow> \<not> (isspace (r ! j) \<and> isspace (r ! Suc j))"
    using "3.IH"(2) [OF good] by (simp add: r_def)
  consider "i < length x" | "i = length x" | "i > length x" by linarith
  then have "\<not> (isspace ((x @ CHR '' '' # r) ! i) \<and> isspace ((x @ CHR '' '' # r) ! Suc i))"
  proof cases
    case 1
    then have "(x @ CHR '' '' # r) ! i = x ! i" by (simp add: nth_append)
    moreover from 1 have "x ! i \<in> set x" by simp
    ultimately show ?thesis using x by simp
  next
    case 2
    then have "(x @ CHR '' '' # r) ! Suc i = r ! 0" by (simp add: nth_append)
    also have "\<dots> = hd r" using r(1) by (simp add: hd_conv_nth)
    finally show ?thesis using r(2) by simp
  next
    case 3
    then obtain j where j: "i = Suc (length x + j)"
      using less_imp_Suc_add by blast
    have a: "(x @ CHR '' '' # r) ! i = r ! j" "(x @ CHR '' '' # r) ! Suc i = r ! Suc j"
      using j by (simp_all add: nth_append)
    have "Suc j < length r" using len j by simp
    from IH [OF this] a show ?thesis by simp
  qed
  with s show ?case by simp
qed


section \<open>The dispatcher loop\<close>

lemma iteration_interrupted_top:
  assumes "fst (read_input ins) = KeyboardInterrupt \<or> fst (read_input ins) = EOFError"
  shows "manager_iteration P vtp ins w = Return ''quit'' (snd (list_micro_terminals P w))"
  using assms
  by (auto simp: manager_iteration_def split: prod.splits input_event.splits)

lemma iteration_destroy_interrupted:
  assumes "split (strip l) = p0 # name # ps" and "lower p0 = ''destroy''"
      and "fst (read_input rest) = KeyboardInterrupt \<or> fst (read_input rest) = EOFError"
  shows "manager_iteration P vtp (Line l # rest) w
         = Continue (snd (read_input rest)) (snd (list_micro_terminals P w))"
proof -
  from assms(1) have ne: "strip l \<noteq> []" by (auto simp: split_def)
  obtain ev rest' where r: "read_input rest = (ev, rest')" by (cases "read_input rest")
  with assms(3) have "ev = KeyboardInterrupt \<or> ev = EOFError" by simp
  with assms(1,2) ne r show ?thesis
    by (auto simp: manager_iteration_def Let_def split: prod.splits)
qed

lemma iteration_new_interrupted:
  assumes "split (strip l) = p0 # name # ps" and "lower p0 = ''new''"
      and "length ps \<noteq> 1"
      and "create_micro_terminal P name
             (if 2 \<le> length ps then lower (ps ! 0) else ''local'')
             (if 2 \<le> length ps then Some (ps ! 1) else None)
             (snd (list_micro_terminals P w)) = ((True, sid, msg), w1)"
      and "fst (read_input rest) = KeyboardInterrupt \<or> fst (read_input rest) = EOFError"
  shows "manager_iteration P vtp (Line l # rest) w = Continue (snd (read_input rest)) w1"
proof -
  from assms(1) have ne: "strip l \<noteq> []" by (auto simp: split_def)
  obtain ev rest' where r: "read_input rest = (ev, rest')" by (cases "read_input rest")
  with assms(5) have ev: "ev = KeyboardInterrupt \<or> ev = EOFError" by simp
  obtain active w0 where l: "list_micro_terminals P w = (active, w0)"
    by (cases "list_micro_terminals P w")
  show ?thesis
  proof (cases "2 \<le> length ps")
    case True
    then have four: "length (p0 # name # ps) \<ge> 4" "length (p0 # name # ps) \<noteq> 3" by simp_all
    from True assms(4) l have
      c: "create_micro_terminal P name (lower (ps ! 0)) (Some (ps ! 1)) w0
          = ((True, sid, msg), w1)" by simp
    from ev show ?thesis
      using assms(1,2) ne r l c True
      by (auto simp: manager_iteration_def Let_def)
  next
    case False
    with assms(3) have "length ps = 0" by linarith
    then have m: "ps = []" by simp
    from False assms(4) l have
      c: "create_micro_terminal P name ''local'' None w0 = ((True, sid, msg), w1)" by simp
    from ev show ?thesis
      using assms(1,2) ne r l c m
      by (auto simp: manager_iteration_def Let_def)
  qed
qed

lemma back_returns:
  "run_micro_terminal_manager P vtp (Line ''back'' # rest) w
   = (Inr ''back'', snd (list_micro_terminals P w))"
  by (simp add: run_micro_terminal_manager.simps [of P vtp "Line ''back'' # rest" w]
        manager_iteration_def string_eval Let_def split: prod.splits)

lemma reference_lists:
  "list_micro_terminals reference_platform (server0 [])
     = ([], (server0 [])\<lparr>invocations :=
              [[''/usr/bin/tmux'', ''list-sessions'', ''-F'', ''#{session_name}'']]\<rparr>)"
  "list_micro_terminals reference_platform (server0 [''aitx-micro-a''])
     = ([''a''], (server0 [''aitx-micro-a''])\<lparr>invocations :=
                   [[''/usr/bin/tmux'', ''list-sessions'', ''-F'', ''#{session_name}'']]\<rparr>)"
  "list_micro_terminals reference_platform
     ((server0 [''aitx-micro-a''])\<lparr>invocations :=
        [[''/usr/bin/tmux'', ''list-sessions'', ''-F'', ''#{session_name}'']]\<rparr>)
     = ([''a''], (server0 [''aitx-micro-a''])\<lparr>invocations :=
                   [[''/usr/bin/tmux'', ''list-sessions'', ''-F'', ''#{session_name}''],
                    [''/usr/bin/tmux'', ''list-sessions'', ''-F'', ''#{session_name}'']]\<rparr>)"
  by (simp_all add: eval_defs string_eval)


text \<open>
  Claim C8. When the read at the top-level prompt is interrupted (the abort signal or
  end-of-input, which is also what reading past the last line gives), the loop returns
  \<open>quit\<close>. When the confirmation prompt of \<open>destroy\<close> is interrupted, the session is
  not destroyed (the outside world is as the listing at the top of the pass left it) and
  the loop goes on with the rest of the input. When the prompt after a successful \<open>new\<close>
  is interrupted, nothing is attached (the outside world is as the creation left it)
  and the loop goes on with the rest of the input.
\<close>

theorem interruption_handling:
  "(fst (read_input ins) = KeyboardInterrupt \<or> fst (read_input ins) = EOFError
    \<longrightarrow> run_micro_terminal_manager P vtp ins w
          = (Inr ''quit'', snd (list_micro_terminals P w)))
   \<and> (split (strip l) = p0 # name # ps \<and> lower p0 = ''destroy''
      \<and> (fst (read_input rest) = KeyboardInterrupt \<or> fst (read_input rest) = EOFError)
    \<longrightarrow> run_micro_terminal_manager P vtp (Line l # rest) w
          = run_micro_terminal_manager P vtp (snd (read_input rest))
              (snd (list_micro_terminals P w)))
   \<and> (split (strip l) = p0 # name # ps \<and> lower p0 = ''new'' \<and> length ps \<noteq> 1
      \<and> create_micro_terminal P name
           (if 2 \<le> length ps then lower (ps ! 0) else ''local'')
           (if 2 \<le> length ps then Some (ps ! 1) else None)
           (snd (list_micro_terminals P w)) = ((True, sid, msg), w1)
      \<and> (fst (read_input rest) = KeyboardInterrupt \<or> fst (read_input rest) = EOFError)
    \<longrightarrow> run_micro_terminal_manager P vtp (Line l # rest) w
          = run_micro_terminal_manager P vtp (snd (read_input rest)) w1)"
proof (intro conjI impI; (elim conjE)?)
  assume "fst (read_input ins) = KeyboardInterrupt \<or> fst (read_input ins) = EOFError"
  then have "manager_iteration P vtp ins w = Return ''quit'' (snd (list_micro_terminals P w))"
    by (rule iteration_interrupted_top)
  then show "run_micro_terminal_manager P vtp ins w
             = (Inr ''quit'', snd (list_micro_terminals P w))"
    by (simp add: run_micro_terminal_manager.simps [of P vtp ins w])
next
  assume "split (strip l) = p0 # name # ps" "lower p0 = ''destroy''"
    "fst (read_input rest) = KeyboardInterrupt \<or> fst (read_input rest) = EOFError"
  then have "manager_iteration P vtp (Line l # rest) w
             = Continue (snd (read_input rest)) (snd (list_micro_terminals P w))"
    by (rule iteration_destroy_interrupted)
  then show "run_micro_terminal_manager P vtp (Line l # rest) w
             = run_micro_terminal_manager P vtp (snd (read_input rest))
                 (snd (list_micro_terminals P w))"
    by (simp add: run_micro_terminal_manager.simps [of P vtp "Line l # rest" w])
next
  assume "split (strip l) = p0 # name # ps" "lower p0 = ''new''" "length ps \<noteq> 1"
    "create_micro_terminal P name
           (if 2 \<le> length ps then lower (ps ! 0) else ''local'')
           (if 2 \<le> length ps then Some (ps ! 1) else None)
           (snd (list_micro_terminals P w)) = ((True, sid, msg), w1)"
    "fst (read_input rest) = KeyboardInterrupt \<or> fst (read_input rest) = EOFError"
  then have "manager_iteration P vtp (Line l # rest) w = Continue (snd (read_input rest)) w1"
    by (rule iteration_new_interrupted)
  then show "run_micro_terminal_manager P vtp (Line l # rest) w
             = run_micro_terminal_manager P vtp (snd (read_input rest)) w1"
    by (simp add: run_micro_terminal_manager.simps [of P vtp "Line l # rest" w])
qed

theorem interruption_handling_witness:
  "fst (run_micro_terminal_manager reference_platform None
          [KeyboardInterrupt, Line ''back''] (server0 [])) = Inr ''quit''
   \<and> fst (run_micro_terminal_manager reference_platform None
            [Line ''destroy a'', KeyboardInterrupt, Line ''back'']
            (server0 [''aitx-micro-a''])) = Inr ''back''
   \<and> sessions (snd (run_micro_terminal_manager reference_platform None
                      [Line ''destroy a'', KeyboardInterrupt, Line ''back'']
                      (server0 [''aitx-micro-a'']))) = [''aitx-micro-a'']
   \<and> fst (run_micro_terminal_manager reference_platform None
            [Line ''new a'', EOFError, Line ''back''] (server0 [])) = Inr ''back''"
proof -
  let ?P = reference_platform
  let ?ls = "[''/usr/bin/tmux'', ''list-sessions'', ''-F'', ''#{session_name}'']"
  let ?up = "server0 [''aitx-micro-a'']"
  let ?listed = "(server0 [])\<lparr>invocations := [?ls]\<rparr>"
  let ?made = "(server0 [''aitx-micro-a''])\<lparr>invocations :=
               [?ls, [''/usr/bin/tmux'', ''has-session'', ''-t'', ''aitx-micro-a''],
                [''/usr/bin/tmux'', ''new-session'', ''-d'', ''-s'', ''aitx-micro-a'',
                 ''/bin/bash'']]\<rparr>"
  have tokens: "split (strip ''destroy a'') = [''destroy'', ''a'']"
    "split (strip ''new a'') = [''new'', ''a'']"
    "lower ''destroy'' = ''destroy''" "lower ''new'' = ''new''"
    by (simp_all add: string_eval)
  note lists = reference_lists
  have created: "create_micro_terminal ?P ''a'' ''local'' None ?listed
                 = ((True, Some ''aitx-micro-a'', ''Micro terminal 'a' created successfully.''),
                    ?made)"
    by (simp add: eval_defs)
  note I = interruption_handling [where P = ?P and vtp = None]
  have top: "run_micro_terminal_manager ?P None [KeyboardInterrupt, Line ''back''] (server0 [])
             = (Inr ''quit'', snd (list_micro_terminals ?P (server0 [])))"
    using I [THEN conjunct1, rule_format,
             where ins = "[KeyboardInterrupt, Line ''back'']" and w = "server0 []"]
    by simp
  have destroy: "run_micro_terminal_manager ?P None
                   [Line ''destroy a'', KeyboardInterrupt, Line ''back''] ?up
                 = run_micro_terminal_manager ?P None [Line ''back'']
                     (snd (list_micro_terminals ?P ?up))"
    using I [THEN conjunct2, THEN conjunct1, rule_format,
             where l = "''destroy a''" and ?p0.0 = "''destroy''" and name = "''a''"
               and ps = "[]" and rest = "[KeyboardInterrupt, Line ''back'']" and w = ?up]
          tokens
    by simp
  have new: "run_micro_terminal_manager ?P None [Line ''new a'', EOFError, Line ''back'']
               (server0 [])
             = run_micro_terminal_manager ?P None [Line ''back''] ?made"
    using I [THEN conjunct2, THEN conjunct2, rule_format,
             where l = "''new a''" and ?p0.0 = "''new''" and name = "''a''"
               and ps = "[]" and rest = "[EOFError, Line ''back'']" and w = "server0 []"
               and sid = "Some ''aitx-micro-a''"
               and msg = "''Micro terminal 'a' created successfully.''" and ?w1.0 = ?made]
          tokens lists created
    by simp
  from top destroy new lists show ?thesis
    by (simp add: back_returns server0_def)
qed


text \<open>
  Claim C10. For an input line whose first token is \<open>send\<close> in any letter case and that
  has at least three tokens, one pass of the loop calls \<open>send_to_micro_terminal\<close> with the
  second token as the name and the remaining tokens joined by single spaces as the
  command. In that command every whitespace character is a space, no two whitespace
  characters are adjacent, and the first character is not whitespace: each run of
  whitespace of the input line has become one space.
\<close>

theorem send_command_rejoined:
  assumes "split (strip l) = p0 # name # c # cs" and "lower p0 = ''send''"
  shows "manager_iteration P vtp (Line l # rest) w
           = Continue rest
               (snd (send_to_micro_terminal P name (join '' '' (c # cs))
                       (snd (list_micro_terminals P w))))
         \<and> (\<forall>ch \<in> set (join '' '' (c # cs)). isspace ch \<longrightarrow> ch = CHR '' '')
         \<and> (\<forall>i. Suc i < length (join '' '' (c # cs))
                \<longrightarrow> \<not> (isspace (join '' '' (c # cs) ! i)
                        \<and> isspace (join '' '' (c # cs) ! Suc i)))
         \<and> join '' '' (c # cs) \<noteq> [] \<and> \<not> isspace (hd (join '' '' (c # cs)))"
proof -
  from assms(1) have ne: "strip l \<noteq> []" by (auto simp: split_def)
  have tokens: "\<forall>t \<in> set (c # cs). t \<noteq> [] \<and> (\<forall>ch \<in> set t. \<not> isspace ch)"
  proof
    fix t assume "t \<in> set (c # cs)"
    with assms(1) have "t \<in> set (split (strip l))" by simp
    then show "t \<noteq> [] \<and> (\<forall>ch \<in> set t. \<not> isspace ch)" by (rule split_tokens)
  qed
  have step: "manager_iteration P vtp (Line l # rest) w
           = Continue rest
               (snd (send_to_micro_terminal P name (join '' '' (c # cs))
                       (snd (list_micro_terminals P w))))"
    using assms ne
    by (auto simp: manager_iteration_def Let_def split: prod.splits)
  have only_spaces: "\<forall>ch \<in> set (join '' '' (c # cs)). isspace ch \<longrightarrow> ch = CHR '' ''"
  proof (intro ballI impI)
    fix ch assume "ch \<in> set (join '' '' (c # cs))" "isspace ch"
    with join_tokens_set [of ch "'' ''" "c # cs"] tokens show "ch = CHR '' ''" by auto
  qed
  have no_run: "\<forall>i. Suc i < length (join '' '' (c # cs))
                \<longrightarrow> \<not> (isspace (join '' '' (c # cs) ! i)
                        \<and> isspace (join '' '' (c # cs) ! Suc i))"
    using join_tokens_no_run [OF tokens] by blast
  have "join '' '' (c # cs) \<noteq> [] \<and> \<not> isspace (hd (join '' '' (c # cs)))"
    using join_tokens_hd [OF tokens] by simp
  with step only_spaces no_run show ?thesis by blast
qed

theorem send_command_rejoined_witness:
  "manager_iteration reference_platform None [Line ''send a echo   hi'']
      (server0 [''aitx-micro-a''])
     = Continue []
         ((server0 [''aitx-micro-a''])\<lparr>invocations :=
            [[''/usr/bin/tmux'', ''list-sessions'', ''-F'', ''#{session_name}''],
             [''/usr/bin/tmux'', ''send-keys'', ''-t'', ''aitx-micro-a:0.0'', ''echo hi'',
              ''C-m'']]\<rparr>)
   \<and> join '' '' [''echo'', ''hi''] = ''echo hi''"
proof -
  let ?P = reference_platform
  let ?up = "server0 [''aitx-micro-a'']"
  let ?ls = "[''/usr/bin/tmux'', ''list-sessions'', ''-F'', ''#{session_name}'']"
  have tokens: "split (strip ''send a echo   hi'') = [''send'', ''a'', ''echo'', ''hi'']"
    "lower ''send'' = ''send''"
    by (simp_all add: string_eval)
  note listed = reference_lists(2)
  have sent: "snd (send_to_micro_terminal ?P ''a'' ''echo hi'' (?up\<lparr>invocations := [?ls]\<rparr>))
              = ?up\<lparr>invocations :=
                    [?ls, [''/usr/bin/tmux'', ''send-keys'', ''-t'', ''aitx-micro-a:0.0'',
                           ''echo hi'', ''C-m'']]\<rparr>"
    by (simp add: eval_defs)
  from send_command_rejoined [OF tokens, of ?P None "[]" ?up] listed sent
  show ?thesis by simp
qed



section \<open>Listing, when the identifiers are well formed\<close>

text \<open>
  The output of \<open>list-sessions\<close> is one identifier per line, each followed by a line
  feed. When no identifier is empty, starts or ends with whitespace, or holds a line
  boundary, stripping the output and cutting it into lines gives the identifiers back.
\<close>

lemma splitlines_from_plain:
  "\<forall>c \<in> set s. \<not> is_linebreak c \<Longrightarrow>
   splitlines_from acc (s @ rest) = splitlines_from (rev s @ acc) rest"
proof (induction s arbitrary: acc)
  case Nil
  show ?case by simp
next
  case (Cons c cs)
  then have c: "\<not> is_linebreak c" and cs: "\<forall>c \<in> set cs. \<not> is_linebreak c" by simp_all
  from c have "c \<noteq> CHR 0x0D" by (auto simp: is_linebreak_def)
  with c show ?case using Cons.IH [OF cs, of "c # acc"] by simp
qed

lemma splitlines_join:
  assumes "\<forall>s \<in> set ids. s \<noteq> [] \<and> (\<forall>c \<in> set s. \<not> is_linebreak c)"
  shows "splitlines (join [CHR 0x0A] ids) = ids"
  using assms
proof (induction ids rule: induct_list012)
  case 1
  show ?case by (simp add: splitlines_def)
next
  case (2 x)
  then have "splitlines_from [] (x @ []) = splitlines_from (rev x @ []) []"
    by (intro splitlines_from_plain) simp
  with 2 show ?case by (simp add: splitlines_def)
next
  case (3 x y zs)
  then have x: "\<forall>c \<in> set x. \<not> is_linebreak c" by simp
  have "splitlines_from [] (x @ CHR 0x0A # join [CHR 0x0A] (y # zs))
        = splitlines_from (rev x @ []) (CHR 0x0A # join [CHR 0x0A] (y # zs))"
    using x by (rule splitlines_from_plain)
  also have "\<dots> = x # splitlines_from [] (join [CHR 0x0A] (y # zs))"
    by (simp add: is_linebreak_def)
  also have "\<dots> = x # y # zs"
    using "3.IH"(2) "3.prems" by (simp add: splitlines_def)
  finally show ?case by (simp add: splitlines_def)
qed

lemma concat_lines_join:
  "ids \<noteq> [] \<Longrightarrow> concat (map (\<lambda>s. s @ [CHR 0x0A]) ids) = join [CHR 0x0A] ids @ [CHR 0x0A]"
  by (induction ids rule: induct_list012) simp_all

lemma join_last:
  assumes "\<forall>s \<in> set ids. s \<noteq> []" and "ids \<noteq> []"
  shows "join sep ids \<noteq> [] \<and> last (join sep ids) = last (last ids)"
  using assms by (induction ids rule: induct_list012) simp_all

lemma join_hd:
  assumes "\<forall>s \<in> set ids. s \<noteq> []" and "ids \<noteq> []"
  shows "hd (join sep ids) = hd (hd ids)"
  using assms by (cases ids) (simp_all add: join_cons)

lemma strip_unchanged:
  assumes "s \<noteq> []" and "\<not> isspace (hd s)" and "\<not> isspace (last s)"
  shows "strip (s @ [CHR 0x0A]) = s"
proof -
  from assms(1,2) have "dropWhile isspace (s @ [CHR 0x0A]) = s @ [CHR 0x0A]"
    by (cases s) simp_all
  moreover have "dropWhile isspace (rev (s @ [CHR 0x0A])) = rev s"
    using assms(1,3) by (cases "rev s") (simp_all add: isspace_def last_rev [symmetric] hd_rev)
  ultimately show ?thesis by (simp add: strip_def)
qed

lemma well_formed_lines:
  assumes "\<forall>s \<in> set ids. s \<noteq> [] \<and> \<not> isspace (hd s) \<and> \<not> isspace (last s)
                         \<and> (\<forall>c \<in> set s. \<not> is_linebreak c)"
  shows "splitlines (strip (concat (map (\<lambda>s. s @ [CHR 0x0A]) ids))) = ids"
proof (cases "ids = []")
  case True
  then show ?thesis by (simp add: strip_def splitlines_def)
next
  case False
  let ?j = "join [CHR 0x0A] ids"
  from assms have ne: "\<forall>s \<in> set ids. s \<noteq> []" by simp
  from False have "hd ids \<in> set ids" "last ids \<in> set ids" by simp_all
  with assms have ends: "\<not> isspace (hd (hd ids))" "\<not> isspace (last (last ids))" by auto
  have j: "?j \<noteq> []" "\<not> isspace (hd ?j)" "\<not> isspace (last ?j)"
    using join_last [OF ne False, of "[CHR 0x0A]"] join_hd [OF ne False, of "[CHR 0x0A]"] ends
    by simp_all
  have "strip (concat (map (\<lambda>s. s @ [CHR 0x0A]) ids)) = ?j"
    using concat_lines_join [OF False] strip_unchanged [OF j] by simp
  moreover have "splitlines ?j = ids"
    using assms by (intro splitlines_join) simp
  ultimately show ?thesis by simp
qed

lemma map_filter_strip_namespace:
  "map (drop (length MICRO_TERM_PREFIX)) (filter (\<lambda>s. startswith s MICRO_TERM_PREFIX) ids)
   = List.map_filter strip_namespace ids"
  by (induction ids) (simp_all add: List.map_filter_simps strip_namespace_def)

text \<open>
  Then \<open>list_micro_terminals\<close> reports, in the order of the server, the names of exactly
  the identifiers that start with the prefix.
\<close>

lemma list_well_formed_output:
  assumes "truthy (get_tmux_path P w)"
      and "run P [the (get_tmux_path P w), ''list-sessions'', ''-F'', ''#{session_name}''] 5 w
           = (Inr cp, w')"
      and "returncode cp = 0"
      and "stdout cp = concat (map (\<lambda>s. s @ [CHR 0x0A]) ids)"
      and "\<forall>s \<in> set ids. s \<noteq> [] \<and> \<not> isspace (hd s) \<and> \<not> isspace (last s)
                             \<and> (\<forall>c \<in> set s. \<not> is_linebreak c)"
  shows "list_micro_terminals P w = (List.map_filter strip_namespace ids, w')"
proof -
  have "splitlines (strip (stdout cp)) = ids"
    using assms(4) well_formed_lines [OF assms(5)] by simp
  with assms(1-3) show ?thesis
    by (simp add: list_micro_terminals_def subprocess_run_def Let_def
                  map_filter_strip_namespace)
qed

end
